theory Spec2Isabelle
  imports Main "HOL-Library.Word"
begin

section \<open>Machine integers and configuration\<close>

text \<open>
  The retry engine of the client (\<^verbatim>\<open>src/client/chunk_closure.cpp\<close>) computes on
  \<^verbatim>\<open>uint64_t\<close>: addition, subtraction and multiplication wrap modulo \<open>2 ^ 64\<close>, comparison,
  \<^verbatim>\<open>std::min\<close> and \<^verbatim>\<open>std::max\<close> are unsigned.
\<close>

type_synonym u64 = "64 word"
type_synonym u32 = "32 word"

text \<open>
  \<^verbatim>\<open>FailureRequestOption failReqOpt_\<close> and \<^verbatim>\<open>BackoffParam backoffParam_\<close>: the process-wide
  configuration. Only the fields the closure reads are kept. Every field meets a
  \<^verbatim>\<open>uint64_t\<close> in \<^verbatim>\<open>std::min\<close>, \<^verbatim>\<open>std::max\<close>, a product or an unsigned comparison, so
  all of them are read as 64-bit unsigned values.
\<close>

record FailureRequestOption =
  chunkserverOPMaxRetry :: u64
  chunkserverOPRetryIntervalUS :: u64
  chunkserverRPCTimeoutMS :: u64
  chunkserverMaxRPCTimeoutMS :: u64
  chunkserverMaxRetrySleepIntervalUS :: u64
  chunkserverMinRetryTimesForceTimeoutBackoff :: u64
  chunkserverSlowRequestThresholdMS :: u64

record BackoffParam =
  maxTimeoutPow :: u64
  maxOverloadPow :: u64

section \<open>Backoff calculator\<close>

text \<open>
  The expression \<^verbatim>\<open>(1 << curpowTime)\<close>: the left operand is the \<^verbatim>\<open>int\<close> literal 1, so the
  shift is done in 32-bit signed arithmetic and its result is converted to \<^verbatim>\<open>uint64_t\<close>
  by the multiplication that follows.
  \<^item> a count below 31 gives \<open>2 ^ k\<close>;
  \<^item> a count of 31 gives \<^verbatim>\<open>INT_MIN\<close>, whose conversion to \<^verbatim>\<open>uint64_t\<close> is \<open>2 ^ 64 - 2 ^ 31\<close>;
  \<^item> a count of 32 or more is undefined behaviour: there is no result.
\<close>

definition shl_int_one :: "u64 \<Rightarrow> u64 option" where
  "shl_int_one k =
     (if k < 31 then Some (push_bit (unat k) 1)
      else if k = 31 then Some (- push_bit 31 1)
      else None)"

text \<open>\<^verbatim>\<open>ClientClosure::TimeoutBackOff(uint64_t currentRetryTimes)\<close>\<close>

definition TimeoutBackOff :: "FailureRequestOption \<Rightarrow> BackoffParam \<Rightarrow> u64 \<Rightarrow> u64 option" where
  "TimeoutBackOff opt bp currentRetryTimes =
     (let curpowTime = min currentRetryTimes (maxTimeoutPow bp) in
      case shl_int_one curpowTime of
        None \<Rightarrow> None
      | Some p \<Rightarrow>
          (let nextTimeout = chunkserverRPCTimeoutMS opt * p;
               nextTimeout = min nextTimeout (chunkserverMaxRPCTimeoutMS opt);
               nextTimeout = max nextTimeout (chunkserverRPCTimeoutMS opt)
           in Some nextTimeout))"

text \<open>
  \<^verbatim>\<open>ClientClosure::OverLoadBackOff(uint64_t currentRetryTimes)\<close>. The value drawn by
  \<^verbatim>\<open>std::rand()\<close> is the extra argument \<open>rnd\<close>: a non-negative \<^verbatim>\<open>int\<close>, which the \<^verbatim>\<open>%\<close>
  with a \<^verbatim>\<open>uint64_t\<close> converts to \<^verbatim>\<open>uint64_t\<close> without changing its value. The divisor \<open>nextsleeptime / 5 + 1\<close> is never
  zero. \<open>random_time - nextsleeptime / 10\<close> is an unsigned subtraction and wraps.
\<close>

definition OverLoadBackOff ::
  "FailureRequestOption \<Rightarrow> BackoffParam \<Rightarrow> u64 \<Rightarrow> u64 \<Rightarrow> u64 option" where
  "OverLoadBackOff opt bp rnd currentRetryTimes =
     (let curpowTime = min currentRetryTimes (maxOverloadPow bp) in
      case shl_int_one curpowTime of
        None \<Rightarrow> None
      | Some p \<Rightarrow>
          (let nextsleeptime = chunkserverOPRetryIntervalUS opt * p;
               random_time = rnd mod (nextsleeptime div 5 + 1);
               random_time = random_time - nextsleeptime div 10;
               nextsleeptime = nextsleeptime + random_time;
               nextsleeptime = min nextsleeptime (chunkserverMaxRetrySleepIntervalUS opt);
               nextsleeptime = max nextsleeptime (chunkserverOPRetryIntervalUS opt)
           in Some nextsleeptime))"

text \<open>
  The backoff formulas in the words of the specification, on unbounded naturals and
  integers: the exponential term \<open>base * 2 ^ min n pow\<close> and the clamp to \<open>[lo, hi]\<close>.
\<close>

definition spec_backoff_term :: "nat \<Rightarrow> nat \<Rightarrow> nat \<Rightarrow> nat" where
  "spec_backoff_term base pow n = base * 2 ^ min n pow"

definition spec_clamp :: "int \<Rightarrow> int \<Rightarrow> int \<Rightarrow> int" where
  "spec_clamp lo hi x = max lo (min hi x)"

section \<open>Inflight throttle of the metaserver\<close>

text \<open>
  \<^verbatim>\<open>curvefs/src/metaserver/inflight_throttle.h\<close>: a counter of type
  \<^verbatim>\<open>std::atomic<uint64_t>\<close> and a constant limit. Each member function performs a single
  atomic operation on the counter, so a run of the object is a sequence of such operations.
  Member names are written without their trailing underscore, which a name cannot end with here.
\<close>

record InflightThrottle =
  inflightRequestCount :: u64
  maxInflightRequest :: u64

definition InflightThrottle_ctor :: "u64 \<Rightarrow> InflightThrottle" where
  "InflightThrottle_ctor maxInflight =
     \<lparr>inflightRequestCount = 0, maxInflightRequest = maxInflight\<rparr>"

definition IsOverLoad :: "InflightThrottle \<Rightarrow> bool" where
  "IsOverLoad t =
     (if maxInflightRequest t \<ge> inflightRequestCount t then False else True)"

definition Increment :: "InflightThrottle \<Rightarrow> InflightThrottle" where
  "Increment t = t\<lparr>inflightRequestCount := inflightRequestCount t + 1\<rparr>"

definition Decrement :: "InflightThrottle \<Rightarrow> InflightThrottle" where
  "Decrement t = t\<lparr>inflightRequestCount := inflightRequestCount t - 1\<rparr>"

datatype ThrottleCall = CallIncrement | CallDecrement

fun throttle_call :: "InflightThrottle \<Rightarrow> ThrottleCall \<Rightarrow> InflightThrottle" where
  "throttle_call t CallIncrement = Increment t"
| "throttle_call t CallDecrement = Decrement t"

text \<open>The throttle after construction with limit \<open>maxInflight\<close> and the given calls.\<close>

definition throttle_after :: "u64 \<Rightarrow> ThrottleCall list \<Rightarrow> InflightThrottle" where
  "throttle_after maxInflight calls = foldl throttle_call (InflightThrottle_ctor maxInflight) calls"

section \<open>Requests, replies and the collaborators of the closure\<close>

text \<open>
  The closure of \<^verbatim>\<open>chunk_closure.cpp\<close> reads and writes three objects: the request context
  (\<^verbatim>\<open>RequestContext\<close>), the per-request bookkeeping (\<^verbatim>\<open>RequestClosure\<close>, from
  \<^verbatim>\<open>request_closure.h\<close>) and the metadata cache. Identifiers are compared only; they are
  fixed-width unsigned integers.
\<close>

type_synonym LogicPoolID = u32
type_synonym CopysetID = u32
type_synonym ChunkID = u64
type_synonym ChunkServerID = u32
type_synonym byte = "8 word"

record EndPoint =
  ip :: string
  port :: nat

record ChunkIDInfo =
  cid :: ChunkID
  cpid :: CopysetID
  lpid :: LogicPoolID

text \<open>
  Modelled from the spec: the enumeration \<^verbatim>\<open>OpType\<close> is declared in a header that is not
  among the sources; the closure names \<^verbatim>\<open>OpType::WRITE\<close> only. The seven operation kinds
  are those of the data model of the specification.
\<close>

datatype OpType = READ | WRITE | READ_SNAP | DELETE_SNAP | CREATE_CLONE | RECOVER_CHUNK | GET_CHUNK_INFO

text \<open>
  The fields of \<^verbatim>\<open>RequestContext\<close> that the closure touches. \<open>chunkSn\<close> is
  \<^verbatim>\<open>chunkinfodetail_->chunkSn\<close>; \<open>sourceInfo\<close> and \<open>location\<close> are only passed on.
\<close>

record RequestContext =
  idinfo :: ChunkIDInfo
  optype :: OpType
  fileId :: u64
  epoch :: u64
  seq :: u64
  correctedSeq :: u64
  offset :: int
  rawlength :: nat
  writeData :: "byte list"
  readData :: "byte list"
  sourceInfo :: string
  location :: string
  chunksize :: u64
  chunkSn :: "u64 list"

text \<open>\<^verbatim>\<open>class RequestClosure\<close>: the data members with their initial values.\<close>

record RequestClosure =
  slowRequest :: bool
  ownInflight :: bool
  errcode :: int
  retryTimes :: u64
  nextTimeoutMS :: u64
  createdMS :: u64

definition RequestClosure_ctor :: "u64 \<Rightarrow> RequestClosure" where
  "RequestClosure_ctor now =
     \<lparr>slowRequest = False, ownInflight = False, errcode = - 1, retryTimes = 0,
      nextTimeoutMS = 0, createdMS = now\<rparr>"

text \<open>
  The numeric values of the constants the closure compares with: the two transport error
  codes \<^verbatim>\<open>brpc::ERPCTIMEDOUT\<close> and \<^verbatim>\<open>ETIMEDOUT\<close>, and the enumerators of
  \<^verbatim>\<open>CHUNK_OP_STATUS\<close>. Their declarations are not among the sources, so they are a
  parameter. \<open>codes_wf\<close> says what any such numbering satisfies: the enumerators are
  pairwise different (the eight used as \<^verbatim>\<open>case\<close> labels of one \<^verbatim>\<open>switch\<close> must be), and
  the two error codes are not 0, the error code of a controller that has not failed.
\<close>

record StatusCodes =
  ERPCTIMEDOUT :: int
  ETIMEDOUT :: int
  CHUNK_OP_STATUS_SUCCESS :: int
  CHUNK_OP_STATUS_REDIRECTED :: int
  CHUNK_OP_STATUS_COPYSET_NOTEXIST :: int
  CHUNK_OP_STATUS_CHUNK_NOTEXIST :: int
  CHUNK_OP_STATUS_INVALID_REQUEST :: int
  CHUNK_OP_STATUS_BACKWARD :: int
  CHUNK_OP_STATUS_CHUNK_EXIST :: int
  CHUNK_OP_STATUS_EPOCH_TOO_OLD :: int
  CHUNK_OP_STATUS_OVERLOAD :: int

definition codes_wf :: "StatusCodes \<Rightarrow> bool" where
  "codes_wf c =
     (distinct [CHUNK_OP_STATUS_SUCCESS c, CHUNK_OP_STATUS_REDIRECTED c,
        CHUNK_OP_STATUS_COPYSET_NOTEXIST c, CHUNK_OP_STATUS_CHUNK_NOTEXIST c,
        CHUNK_OP_STATUS_INVALID_REQUEST c, CHUNK_OP_STATUS_BACKWARD c,
        CHUNK_OP_STATUS_CHUNK_EXIST c, CHUNK_OP_STATUS_EPOCH_TOO_OLD c,
        CHUNK_OP_STATUS_OVERLOAD c] \<and>
      ERPCTIMEDOUT c \<noteq> 0 \<and> ETIMEDOUT c \<noteq> 0)"

datatype UnstableState = NoUnstable | ChunkServerUnstable | ServerUnstable

text \<open>
  The metadata cache is a collaborator whose code is not part of the closure. It is a state
  of some type \<open>'m\<close> together with the operations the closure calls. An operation that can
  change the cache returns the new cache; \<^verbatim>\<open>GetLeader\<close> returns its \<^verbatim>\<open>int\<close> result and the
  leader id it stores through its pointer argument, its fourth argument is
  \<^verbatim>\<open>refresh\<close>. The operations of \<^verbatim>\<open>GetUnstableHelper()\<close> are listed with the others.
\<close>

record 'm MetaCache =
  GetLeader :: "'m \<Rightarrow> LogicPoolID \<Rightarrow> CopysetID \<Rightarrow> bool \<Rightarrow> (int \<times> ChunkServerID) \<times> 'm"
  UpdateLeader :: "'m \<Rightarrow> LogicPoolID \<Rightarrow> CopysetID \<Rightarrow> EndPoint \<Rightarrow> int \<times> 'm"
  IsLeaderMayChange :: "'m \<Rightarrow> LogicPoolID \<Rightarrow> CopysetID \<Rightarrow> bool"
  GetLatestFileSn :: "'m \<Rightarrow> u64"
  SetServerUnstable :: "'m \<Rightarrow> string \<Rightarrow> int \<times> 'm"
  SetChunkserverUnstable :: "'m \<Rightarrow> ChunkServerID \<Rightarrow> 'm"
  ClearTimeout :: "'m \<Rightarrow> ChunkServerID \<Rightarrow> EndPoint \<Rightarrow> 'm"
  IncreTimeout :: "'m \<Rightarrow> ChunkServerID \<Rightarrow> 'm"
  GetCurrentUnstableState :: "'m \<Rightarrow> ChunkServerID \<Rightarrow> EndPoint \<Rightarrow> UnstableState \<times> 'm"

text \<open>
  Everything the closure is given from outside: the two configuration objects, the
  numbering of the constants, the metadata cache operations and \<^verbatim>\<open>PeerAddr::Parse\<close>, which
  returns its \<^verbatim>\<open>int\<close> result and the address it parsed.
\<close>

record 'm Env =
  failReqOpt :: FailureRequestOption
  backoffParam :: BackoffParam
  codes :: StatusCodes
  mc :: "'m MetaCache"
  Parse :: "string \<Rightarrow> int \<times> EndPoint"

text \<open>
  The seven closure classes. The class decides the virtual calls: \<^verbatim>\<open>SendRetryRequest\<close>,
  \<^verbatim>\<open>OnSuccess\<close>, \<^verbatim>\<open>OnChunkNotExist\<close> and \<^verbatim>\<open>OnRedirected\<close>.
\<close>

datatype ClosureKind =
    WriteChunkClosure | ReadChunkClosure | ReadChunkSnapClosure | DeleteChunkSnapClosure
  | GetChunkInfoClosure | CreateCloneChunkClosure | RecoverChunkClosure

text \<open>
  One completed attempt: the class of the closure, the chunkserver the request was sent
  to, what the controller and the replies hold, and the two values the closure reads from
  its surroundings while it runs, the clock (\<^verbatim>\<open>TimeUtility::GetTimeofDayMs()\<close>) and
  \<^verbatim>\<open>std::rand()\<close>. \<open>response_status\<close> is the result of \<^verbatim>\<open>GetResponseStatus()\<close>.
\<close>

record Attempt =
  kind :: ClosureKind
  chunkserverID :: ChunkServerID
  chunkserverEndPoint :: EndPoint
  cntl_ErrorCode :: int
  cntl_latency_us :: int
  cntl_response_attachment :: "byte list"
  response_status :: int
  response_redirect :: "string option"
  chunkinforesponse_redirect :: "string option"
  chunkinforesponse_chunksn :: "u64 list"
  timeofday_ms :: u64
  rand_value :: u64

text \<open>\<^verbatim>\<open>brpc::Controller::Failed()\<close> holds exactly when the error code is not 0.\<close>

definition cntl_Failed :: "Attempt \<Rightarrow> bool" where
  "cntl_Failed a = (cntl_ErrorCode a \<noteq> 0)"

text \<open>The requests \<^verbatim>\<open>SendRetryRequest\<close> hands to the copyset client, with their arguments.\<close>

datatype Rpc =
    WriteChunk ChunkIDInfo u64 u64 u64 "byte list" int nat string
  | ReadChunk ChunkIDInfo u64 int nat string
  | ReadChunkSnapshot ChunkIDInfo u64 int nat
  | DeleteChunkSnapshotOrCorrectSn ChunkIDInfo u64
  | GetChunkInfo ChunkIDInfo
  | CreateCloneChunk ChunkIDInfo string u64 u64 u64
  | RecoverChunk ChunkIDInfo int nat

datatype Metric =
    IncremFailRPCCount | IncremTimeOutRPCCount | IncremRedirectRPCCount
  | IncremSlowRequestNum | LatencyRecord | IncremRPCQPSCount

text \<open>
  What the closure does to the outside, in the order it does it: the calls on the leader
  table of the metadata cache (\<open>EvGetLeader\<close> carries the \<^verbatim>\<open>refresh\<close> argument), the
  cooperative sleep \<^verbatim>\<open>bthread_usleep\<close>, the re-sent request, the completion
  \<^verbatim>\<open>done_->Run()\<close>, and the metric and connection-pool calls. Log lines are left out.
\<close>

datatype Event =
    EvResetSenderIfNotHealth ChunkServerID
  | EvMetric Metric
  | EvUpdateLeader LogicPoolID CopysetID EndPoint
  | EvGetLeader LogicPoolID CopysetID bool
  | EvSleep u64
  | EvSendRetryRequest Rpc
  | EvDoneRun

text \<open>
  The closure while it runs: the two request objects it points to, the metadata cache, its
  own members \<^verbatim>\<open>chunkIdInfo_\<close>, \<^verbatim>\<open>retryDirectly_\<close>, \<^verbatim>\<open>status_\<close> and \<^verbatim>\<open>cntlstatus_\<close>, and
  the events so far (the latest last).
\<close>

record 'm ClientClosure =
  reqDone :: RequestClosure
  reqCtx :: RequestContext
  metaCache :: 'm
  chunkIdInfo :: ChunkIDInfo
  retryDirectly :: bool
  status :: int
  cntlstatus :: int
  events :: "Event list"

definition emit :: "Event \<Rightarrow> 'm ClientClosure \<Rightarrow> 'm ClientClosure" where
  "emit ev s = s\<lparr>events := events s @ [ev]\<rparr>"

text \<open>\<^verbatim>\<open>reqDone_->SetFailed\<close>, \<^verbatim>\<open>SetNextTimeOutMS\<close> and \<^verbatim>\<open>MarkAsSlowRequest\<close>.\<close>

definition SetFailed :: "int \<Rightarrow> 'm ClientClosure \<Rightarrow> 'm ClientClosure" where
  "SetFailed errorCode s = s\<lparr>reqDone := (reqDone s)\<lparr>errcode := errorCode\<rparr>\<rparr>"

definition SetNextTimeOutMS :: "u64 \<Rightarrow> 'm ClientClosure \<Rightarrow> 'm ClientClosure" where
  "SetNextTimeOutMS timeout s = s\<lparr>reqDone := (reqDone s)\<lparr>nextTimeoutMS := timeout\<rparr>\<rparr>"

definition MarkAsSlowRequest :: "'m ClientClosure \<Rightarrow> 'm ClientClosure" where
  "MarkAsSlowRequest s = s\<lparr>reqDone := (reqDone s)\<lparr>slowRequest := True\<rparr>\<rparr>"

text \<open>
  \<^verbatim>\<open>butil::IOBuf::resize(n, c)\<close>: a longer buffer is cut to \<open>n\<close> bytes, a shorter one keeps
  its bytes and is filled up with \<open>c\<close>.
\<close>

definition IOBuf_resize :: "nat \<Rightarrow> byte \<Rightarrow> byte list \<Rightarrow> byte list" where
  "IOBuf_resize n c buf =
     (if n < length buf then take n buf else buf @ replicate (n - length buf) c)"

section \<open>The closure of a completed attempt\<close>

text \<open>\<^verbatim>\<open>ClientClosure::RefreshLeader()\<close>: \<^verbatim>\<open>GetLeader\<close> with \<^verbatim>\<open>refresh = true\<close>.\<close>

definition RefreshLeader :: "'m Env \<Rightarrow> Attempt \<Rightarrow> 'm ClientClosure \<Rightarrow> 'm ClientClosure" where
  "RefreshLeader e a s =
     (let lpId = lpid (chunkIdInfo s); cpId = cpid (chunkIdInfo s);
          ((ret, leaderId), m) = GetLeader (mc e) (metaCache s) lpId cpId True;
          s = emit (EvGetLeader lpId cpId True) (s\<lparr>metaCache := m\<rparr>)
      in if - 1 = ret then s
         else s\<lparr>retryDirectly := (leaderId \<noteq> chunkserverID a)\<rparr>)"

text \<open>
  \<^verbatim>\<open>ClientClosure::UpdateLeaderWithRedirectInfo(leaderInfo)\<close>: the \<^verbatim>\<open>int\<close> it returns
  and the closure afterwards.
\<close>

definition UpdateLeaderWithRedirectInfo ::
  "'m Env \<Rightarrow> Attempt \<Rightarrow> string \<Rightarrow> 'm ClientClosure \<Rightarrow> int \<times> 'm ClientClosure" where
  "UpdateLeaderWithRedirectInfo e a leaderInfo s =
     (let (ret, leaderAddr) = Parse e leaderInfo in
      if ret \<noteq> 0 then (- 1, s)
      else
        (let lpId = lpid (chunkIdInfo s); cpId = cpid (chunkIdInfo s);
             (ret, m) = UpdateLeader (mc e) (metaCache s) lpId cpId leaderAddr;
             s = emit (EvUpdateLeader lpId cpId leaderAddr) (s\<lparr>metaCache := m\<rparr>)
         in if ret \<noteq> 0 then (- 1, s)
            else
              (let ((ret, leaderId), m) = GetLeader (mc e) (metaCache s) lpId cpId False;
                   s = emit (EvGetLeader lpId cpId False) (s\<lparr>metaCache := m\<rparr>)
               in if ret \<noteq> 0 then (- 1, s)
                  else (0, s\<lparr>retryDirectly := (leaderId \<noteq> chunkserverID a)\<rparr>))))"

text \<open>
  \<^verbatim>\<open>ClientClosure::OnRedirected()\<close> and \<^verbatim>\<open>GetChunkInfoClosure::OnRedirected()\<close> have the
  same body; the first reads the hint of \<^verbatim>\<open>response_\<close>, the second that of
  \<^verbatim>\<open>chunkinforesponse_\<close>. \<open>None\<close> is a reply for which \<^verbatim>\<open>has_redirect()\<close> is false.
\<close>

definition redirected_with ::
  "'m Env \<Rightarrow> Attempt \<Rightarrow> string option \<Rightarrow> 'm ClientClosure \<Rightarrow> 'm ClientClosure" where
  "redirected_with e a redirect s =
     (case redirect of
        Some leaderInfo \<Rightarrow>
          (let (ret, s') = UpdateLeaderWithRedirectInfo e a leaderInfo s
           in if ret = 0 then s' else RefreshLeader e a s')
      | None \<Rightarrow> RefreshLeader e a s)"

definition reply_redirect :: "Attempt \<Rightarrow> string option" where
  "reply_redirect a =
     (if kind a = GetChunkInfoClosure then chunkinforesponse_redirect a else response_redirect a)"

definition OnRedirected :: "'m Env \<Rightarrow> Attempt \<Rightarrow> 'm ClientClosure \<Rightarrow> 'm ClientClosure" where
  "OnRedirected e a s = redirected_with e a (reply_redirect a) s"

definition OnCopysetNotExist :: "'m Env \<Rightarrow> Attempt \<Rightarrow> 'm ClientClosure \<Rightarrow> 'm ClientClosure" where
  "OnCopysetNotExist e a s = RefreshLeader e a s"

text \<open>\<^verbatim>\<open>ClientClosure::ProcessUnstableState()\<close> and \<^verbatim>\<open>ClientClosure::OnRpcFailed()\<close>\<close>

definition ProcessUnstableState :: "'m Env \<Rightarrow> Attempt \<Rightarrow> 'm ClientClosure \<Rightarrow> 'm ClientClosure" where
  "ProcessUnstableState e a s =
     (let (state, m) = GetCurrentUnstableState (mc e) (metaCache s)
                         (chunkserverID a) (chunkserverEndPoint a);
          s = s\<lparr>metaCache := m\<rparr>
      in case state of
           ServerUnstable \<Rightarrow>
             (let (ret, m) = SetServerUnstable (mc e) (metaCache s) (ip (chunkserverEndPoint a));
                  s = s\<lparr>metaCache := m\<rparr>
              in if ret \<noteq> 0
                 then s\<lparr>metaCache := SetChunkserverUnstable (mc e) (metaCache s) (chunkserverID a)\<rparr>
                 else s)
         | ChunkServerUnstable \<Rightarrow>
             s\<lparr>metaCache := SetChunkserverUnstable (mc e) (metaCache s) (chunkserverID a)\<rparr>
         | NoUnstable \<Rightarrow> RefreshLeader e a s)"

definition OnRpcFailed :: "'m Env \<Rightarrow> Attempt \<Rightarrow> 'm ClientClosure \<Rightarrow> 'm ClientClosure" where
  "OnRpcFailed e a s =
     (let s = emit (EvResetSenderIfNotHealth (chunkserverID a)) s;
          s = s\<lparr>status := cntl_ErrorCode a\<rparr>;
          s = (if cntlstatus s = ERPCTIMEDOUT (codes e)
               then emit (EvMetric IncremTimeOutRPCCount)
                      (s\<lparr>metaCache := IncreTimeout (mc e) (metaCache s) (chunkserverID a)\<rparr>)
               else s)
      in ProcessUnstableState e a s)"

text \<open>
  The handlers of the replies that end the request. \<open>ClientClosure_OnSuccess\<close> and
  \<open>ClientClosure_OnChunkNotExist\<close> are the members of the base class; \<open>OnSuccess\<close> and
  \<open>OnChunkNotExist\<close> are the virtual calls, which run the override of the closure's class.
\<close>

definition ClientClosure_OnSuccess :: "'m ClientClosure \<Rightarrow> 'm ClientClosure" where
  "ClientClosure_OnSuccess s =
     emit (EvMetric IncremRPCQPSCount) (emit (EvMetric LatencyRecord) (SetFailed 0 s))"

definition OnSuccess :: "Attempt \<Rightarrow> 'm ClientClosure \<Rightarrow> 'm ClientClosure" where
  "OnSuccess a s =
     (let s = ClientClosure_OnSuccess s in
      if kind a = ReadChunkClosure \<or> kind a = ReadChunkSnapClosure
      then s\<lparr>reqCtx := (reqCtx s)\<lparr>readData := cntl_response_attachment a\<rparr>\<rparr>
      else if kind a = GetChunkInfoClosure
      then s\<lparr>reqCtx := (reqCtx s)\<lparr>chunkSn :=
               foldl (\<lambda>v sn. v @ [sn]) (chunkSn (reqCtx s)) (chunkinforesponse_chunksn a)\<rparr>\<rparr>
      else s)"

definition ClientClosure_OnChunkNotExist :: "'m ClientClosure \<Rightarrow> 'm ClientClosure" where
  "ClientClosure_OnChunkNotExist s =
     emit (EvMetric IncremRPCQPSCount) (emit (EvMetric LatencyRecord) (SetFailed (status s) s))"

definition OnChunkNotExist :: "Attempt \<Rightarrow> 'm ClientClosure \<Rightarrow> 'm ClientClosure" where
  "OnChunkNotExist a s =
     (let s = ClientClosure_OnChunkNotExist s in
      if kind a = ReadChunkClosure
      then (let s = SetFailed 0 s
            in s\<lparr>reqCtx := (reqCtx s)\<lparr>readData :=
                    IOBuf_resize (rawlength (reqCtx s)) 0 (readData (reqCtx s))\<rparr>\<rparr>)
      else s)"

definition OnChunkExist :: "'m ClientClosure \<Rightarrow> 'm ClientClosure" where
  "OnChunkExist s = SetFailed (status s) s"

definition OnEpochTooOld :: "'m ClientClosure \<Rightarrow> 'm ClientClosure" where
  "OnEpochTooOld s = SetFailed (status s) s"

definition OnInvalidRequest :: "'m ClientClosure \<Rightarrow> 'm ClientClosure" where
  "OnInvalidRequest s = emit (EvMetric IncremFailRPCCount) (SetFailed (status s) s)"

definition OnBackward :: "'m Env \<Rightarrow> 'm ClientClosure \<Rightarrow> 'm ClientClosure" where
  "OnBackward e s =
     (let latestSn = GetLatestFileSn (mc e) (metaCache s)
      in s\<lparr>reqCtx := (reqCtx s)\<lparr>seq := latestSn\<rparr>\<rparr>)"

text \<open>
  \<^verbatim>\<open>ClientClosure::PreProcessBeforeRetry(rpcstatus, cntlstatus)\<close>. There is no result where
  the backoff calculation has none. \<^verbatim>\<open>bthread_usleep\<close> is called with the overload backoff
  whatever its value, and with the plain sleep only when it is not 0.
\<close>

definition PreProcessBeforeRetry ::
  "'m Env \<Rightarrow> Attempt \<Rightarrow> int \<Rightarrow> int \<Rightarrow> 'm ClientClosure \<Rightarrow> 'm ClientClosure option" where
  "PreProcessBeforeRetry e a rpcstatus cntlstatus' s =
     (if cntlstatus' = ERPCTIMEDOUT (codes e) \<or> cntlstatus' = ETIMEDOUT (codes e) then
        (let retriedTimes = retryTimes (reqDone s);
             leaderMayChange = IsLeaderMayChange (mc e) (metaCache s)
                                 (lpid (chunkIdInfo s)) (cpid (chunkIdInfo s))
         in if retriedTimes < chunkserverMinRetryTimesForceTimeoutBackoff (failReqOpt e)
               \<and> leaderMayChange
            then Some (SetNextTimeOutMS (chunkserverRPCTimeoutMS (failReqOpt e)) s)
            else (case TimeoutBackOff (failReqOpt e) (backoffParam e) retriedTimes of
                    None \<Rightarrow> None
                  | Some nextTimeout \<Rightarrow> Some (SetNextTimeOutMS nextTimeout s)))
      else if rpcstatus = CHUNK_OP_STATUS_OVERLOAD (codes e) then
        (case OverLoadBackOff (failReqOpt e) (backoffParam e) (rand_value a)
                (retryTimes (reqDone s)) of
           None \<Rightarrow> None
         | Some nextsleeptime \<Rightarrow> Some (emit (EvSleep nextsleeptime) s))
      else
        (let nextSleepUS =
               (if \<not> retryDirectly s
                then (if rpcstatus = CHUNK_OP_STATUS_REDIRECTED (codes e)
                      then chunkserverOPRetryIntervalUS (failReqOpt e) div 10
                      else chunkserverOPRetryIntervalUS (failReqOpt e))
                else 0)
         in Some (if nextSleepUS \<noteq> 0 then emit (EvSleep nextSleepUS) s else s)))"

text \<open>The seven \<^verbatim>\<open>SendRetryRequest\<close> overrides.\<close>

definition retry_rpc :: "ClosureKind \<Rightarrow> RequestContext \<Rightarrow> Rpc" where
  "retry_rpc k c =
     (case k of
        WriteChunkClosure \<Rightarrow>
          WriteChunk (idinfo c) (fileId c) (epoch c) (seq c) (writeData c) (offset c)
            (rawlength c) (sourceInfo c)
      | ReadChunkClosure \<Rightarrow> ReadChunk (idinfo c) (seq c) (offset c) (rawlength c) (sourceInfo c)
      | ReadChunkSnapClosure \<Rightarrow> ReadChunkSnapshot (idinfo c) (seq c) (offset c) (rawlength c)
      | DeleteChunkSnapClosure \<Rightarrow> DeleteChunkSnapshotOrCorrectSn (idinfo c) (correctedSeq c)
      | GetChunkInfoClosure \<Rightarrow> GetChunkInfo (idinfo c)
      | CreateCloneChunkClosure \<Rightarrow>
          CreateCloneChunk (idinfo c) (location c) (seq c) (correctedSeq c) (chunksize c)
      | RecoverChunkClosure \<Rightarrow> RecoverChunk (idinfo c) (offset c) (rawlength c))"

definition SendRetryRequest :: "Attempt \<Rightarrow> 'm ClientClosure \<Rightarrow> 'm ClientClosure" where
  "SendRetryRequest a s = emit (EvSendRetryRequest (retry_rpc (kind a) (reqCtx s))) s"

text \<open>
  \<^verbatim>\<open>ClientClosure::OnRetry()\<close>. \<open>slow_request_check\<close> is its second \<^verbatim>\<open>if\<close> statement, which
  marks a request as slow; the difference of the two times is an unsigned subtraction.
\<close>

definition slow_request_check :: "'m Env \<Rightarrow> Attempt \<Rightarrow> 'm ClientClosure \<Rightarrow> 'm ClientClosure" where
  "slow_request_check e a s =
     (if \<not> slowRequest (reqDone s) \<and>
         timeofday_ms a - createdMS (reqDone s) > chunkserverSlowRequestThresholdMS (failReqOpt e)
      then emit (EvMetric IncremSlowRequestNum) (MarkAsSlowRequest s)
      else s)"

definition OnRetry :: "'m Env \<Rightarrow> Attempt \<Rightarrow> 'm ClientClosure \<Rightarrow> 'm ClientClosure option" where
  "OnRetry e a s =
     (let s = emit (EvMetric IncremFailRPCCount) s in
      if retryTimes (reqDone s) \<ge> chunkserverOPMaxRetry (failReqOpt e)
      then Some (emit EvDoneRun (SetFailed (status s) s))
      else
        (let s = slow_request_check e a s
         in case PreProcessBeforeRetry e a (status s) (cntlstatus s) s of
              None \<Rightarrow> None
            | Some s \<Rightarrow> Some (SendRetryRequest a s)))"

text \<open>
  \<^verbatim>\<open>ClientClosure::Run()\<close>, in three parts. \<open>status_switch\<close> is the \<^verbatim>\<open>switch\<close> over
  \<^verbatim>\<open>status_\<close>: the chain of comparisons with its labels, in their order; it returns
  \<^verbatim>\<open>needRetry\<close> and the closure. \<open>Run_switch\<close> is \<^verbatim>\<open>Run\<close> up to the end of the
  \<^verbatim>\<open>if (cntl_->Failed())\<close> statement. \<open>Run\<close> adds the end: without a retry the guard
  \<^verbatim>\<open>doneGuard\<close> runs the completion when \<^verbatim>\<open>Run\<close> returns; with a retry the guard is
  released and \<^verbatim>\<open>OnRetry\<close> decides.
\<close>

definition status_switch :: "'m Env \<Rightarrow> Attempt \<Rightarrow> 'm ClientClosure \<Rightarrow> bool \<times> 'm ClientClosure" where
  "status_switch e a s =
     (if status s = CHUNK_OP_STATUS_SUCCESS (codes e) then (False, OnSuccess a s)
      else if status s = CHUNK_OP_STATUS_REDIRECTED (codes e)
      then (True, OnRedirected e a (emit (EvMetric IncremRedirectRPCCount) s))
      else if status s = CHUNK_OP_STATUS_COPYSET_NOTEXIST (codes e)
      then (True, OnCopysetNotExist e a s)
      else if status s = CHUNK_OP_STATUS_CHUNK_NOTEXIST (codes e)
      then (False, OnChunkNotExist a s)
      else if status s = CHUNK_OP_STATUS_INVALID_REQUEST (codes e)
      then (False, OnInvalidRequest s)
      else if status s = CHUNK_OP_STATUS_BACKWARD (codes e)
      then (if optype (reqCtx s) = WRITE then (True, OnBackward e s) else (False, s))
      else if status s = CHUNK_OP_STATUS_CHUNK_EXIST (codes e)
      then (False, OnChunkExist s)
      else if status s = CHUNK_OP_STATUS_EPOCH_TOO_OLD (codes e)
      then (False, OnEpochTooOld s)
      else (True, s))"

definition Run_switch :: "'m Env \<Rightarrow> Attempt \<Rightarrow> 'm ClientClosure \<Rightarrow> bool \<times> 'm ClientClosure" where
  "Run_switch e a s =
     (let s = s\<lparr>chunkIdInfo := idinfo (reqCtx s), status := - 1, cntlstatus := cntl_ErrorCode a\<rparr>
      in if cntl_Failed a then (True, OnRpcFailed e a s)
         else
           (let s = s\<lparr>metaCache := ClearTimeout (mc e) (metaCache s)
                                       (chunkserverID a) (chunkserverEndPoint a)\<rparr>;
                s = s\<lparr>status := response_status a\<rparr>
            in status_switch e a s))"

definition Run :: "'m Env \<Rightarrow> Attempt \<Rightarrow> 'm ClientClosure \<Rightarrow> 'm ClientClosure option" where
  "Run e a s =
     (let (needRetry, s) = Run_switch e a s
      in if needRetry then OnRetry e a s else Some (emit EvDoneRun s))"

section \<open>What an attempt is observed to do\<close>

text \<open>
  The events a run of the closure adds, and the three kinds of event the retry decision
  shows in: a sleep, a re-sent request, the completion.
\<close>

definition attempt_events :: "'m ClientClosure \<Rightarrow> 'm ClientClosure \<Rightarrow> Event list" where
  "attempt_events s s' = drop (length (events s)) (events s')"

fun is_send :: "Event \<Rightarrow> bool" where
  "is_send (EvSendRetryRequest r) = True"
| "is_send ev = False"

fun is_sleep :: "Event \<Rightarrow> bool" where
  "is_sleep (EvSleep us) = True"
| "is_sleep ev = False"

fun is_control :: "Event \<Rightarrow> bool" where
  "is_control (EvSleep us) = True"
| "is_control (EvSendRetryRequest r) = True"
| "is_control EvDoneRun = True"
| "is_control ev = False"

fun is_leader_call :: "Event \<Rightarrow> bool" where
  "is_leader_call (EvUpdateLeader lp cp addr) = True"
| "is_leader_call (EvGetLeader lp cp refresh) = True"
| "is_leader_call ev = False"

text \<open>
  A step of the closure that adds events but no sleep, no re-sent request and no
  completion, and that changes nothing of the bookkeeping of the request but the error
  code, nor \<^verbatim>\<open>cntlstatus_\<close> or \<^verbatim>\<open>chunkIdInfo_\<close>.
\<close>

definition quiet_step :: "'m ClientClosure \<Rightarrow> 'm ClientClosure \<Rightarrow> bool" where
  "quiet_step s s' =
     (take (length (events s)) (events s') = events s \<and>
      filter is_control (attempt_events s s') = [] \<and>
      reqDone s' = (reqDone s)\<lparr>errcode := errcode (reqDone s')\<rparr> \<and>
      cntlstatus s' = cntlstatus s \<and> chunkIdInfo s' = chunkIdInfo s)"

text \<open>
  The sleep that the last part of \<^verbatim>\<open>PreProcessBeforeRetry\<close> computes, as a formula of the
  members of the closure: nothing when the retry is direct, else the retry interval, a
  tenth of it when \<^verbatim>\<open>status_\<close> equals \<^verbatim>\<open>REDIRECTED\<close>.
\<close>

definition plain_sleep :: "'m Env \<Rightarrow> 'm ClientClosure \<Rightarrow> u64" where
  "plain_sleep e s =
     (if retryDirectly s then 0
      else if status s = CHUNK_OP_STATUS_REDIRECTED (codes e)
      then chunkserverOPRetryIntervalUS (failReqOpt e) div 10
      else chunkserverOPRetryIntervalUS (failReqOpt e))"

text \<open>The status the attempt ends with: the transport error code, or else the reply's status.\<close>

definition last_status :: "Attempt \<Rightarrow> int" where
  "last_status a = (if cntl_Failed a then cntl_ErrorCode a else response_status a)"

text \<open>
  The response classifier and the set of retryable outcomes in the words of the
  specification (sections 3 and 4.4), to compare \<^verbatim>\<open>needRetry\<close> with.
\<close>

datatype AttemptOutcome =
    Success | RpcFailed int | Redirected "string option" | CopysetNotExist | ChunkNotExist
  | InvalidRequest | Backward | ChunkExist | EpochTooOld | Overload | Unknown int

definition spec_classify :: "StatusCodes \<Rightarrow> int \<Rightarrow> int \<Rightarrow> string option \<Rightarrow> AttemptOutcome" where
  "spec_classify c transport_status app_status hint =
     (if transport_status \<noteq> 0 then RpcFailed transport_status
      else if app_status = CHUNK_OP_STATUS_SUCCESS c then Success
      else if app_status = CHUNK_OP_STATUS_REDIRECTED c then Redirected hint
      else if app_status = CHUNK_OP_STATUS_COPYSET_NOTEXIST c then CopysetNotExist
      else if app_status = CHUNK_OP_STATUS_CHUNK_NOTEXIST c then ChunkNotExist
      else if app_status = CHUNK_OP_STATUS_INVALID_REQUEST c then InvalidRequest
      else if app_status = CHUNK_OP_STATUS_BACKWARD c then Backward
      else if app_status = CHUNK_OP_STATUS_CHUNK_EXIST c then ChunkExist
      else if app_status = CHUNK_OP_STATUS_EPOCH_TOO_OLD c then EpochTooOld
      else if app_status = CHUNK_OP_STATUS_OVERLOAD c then Overload
      else Unknown app_status)"

fun spec_retryable :: "OpType \<Rightarrow> AttemptOutcome \<Rightarrow> bool" where
  "spec_retryable op (RpcFailed err) = True"
| "spec_retryable op (Redirected hint) = True"
| "spec_retryable op CopysetNotExist = True"
| "spec_retryable op Backward = (op = WRITE)"
| "spec_retryable op Overload = True"
| "spec_retryable op (Unknown raw) = True"
| "spec_retryable op outcome = False"

definition attempt_outcome :: "'m Env \<Rightarrow> Attempt \<Rightarrow> AttemptOutcome" where
  "attempt_outcome e a =
     spec_classify (codes e) (cntl_ErrorCode a) (response_status a) (reply_redirect a)"

section \<open>A small instance to run the closure on\<close>

text \<open>
  Concrete configurations, a numbering of the constants, and a metadata cache with one
  copyset: it remembers a leader, knows what the authority would answer, and resolves an
  address to the chunkserver whose id is the port. The parser accepts every non-empty
  string.
\<close>

definition mk_opt :: "u64 \<Rightarrow> u64 \<Rightarrow> u64 \<Rightarrow> u64 \<Rightarrow> u64 \<Rightarrow> FailureRequestOption" where
  "mk_opt maxRetry interval maxSleep timeout maxTimeout =
     \<lparr>chunkserverOPMaxRetry = maxRetry,
      chunkserverOPRetryIntervalUS = interval,
      chunkserverRPCTimeoutMS = timeout,
      chunkserverMaxRPCTimeoutMS = maxTimeout,
      chunkserverMaxRetrySleepIntervalUS = maxSleep,
      chunkserverMinRetryTimesForceTimeoutBackoff = 5,
      chunkserverSlowRequestThresholdMS = 45000\<rparr>"

definition mk_bp :: "u64 \<Rightarrow> u64 \<Rightarrow> BackoffParam" where
  "mk_bp timeoutPow overloadPow = \<lparr>maxTimeoutPow = timeoutPow, maxOverloadPow = overloadPow\<rparr>"

definition codes0 :: StatusCodes where
  "codes0 =
     \<lparr>ERPCTIMEDOUT = 1008, ETIMEDOUT = 110,
      CHUNK_OP_STATUS_SUCCESS = 0, CHUNK_OP_STATUS_REDIRECTED = 1,
      CHUNK_OP_STATUS_COPYSET_NOTEXIST = 6, CHUNK_OP_STATUS_CHUNK_NOTEXIST = 7,
      CHUNK_OP_STATUS_INVALID_REQUEST = 4, CHUNK_OP_STATUS_BACKWARD = 10,
      CHUNK_OP_STATUS_CHUNK_EXIST = 11, CHUNK_OP_STATUS_EPOCH_TOO_OLD = 12,
      CHUNK_OP_STATUS_OVERLOAD = 9\<rparr>"

record Cache0 =
  known_leader :: "ChunkServerID option"
  authority_leader :: "ChunkServerID option"
  latestFileSn :: u64
  leaderMayChange :: bool

definition cache0_ops :: "Cache0 MetaCache" where
  "cache0_ops =
     \<lparr>GetLeader = (\<lambda>m lp cp refresh.
        if refresh
        then (case authority_leader m of
                None \<Rightarrow> ((- 1, 0), m)
              | Some l \<Rightarrow> ((0, l), m\<lparr>known_leader := Some l\<rparr>))
        else (case known_leader m of
                None \<Rightarrow> ((- 1, 0), m)
              | Some l \<Rightarrow> ((0, l), m))),
      UpdateLeader = (\<lambda>m lp cp addr.
        if port addr = 0 then (- 1, m) else (0, m\<lparr>known_leader := Some (of_nat (port addr))\<rparr>)),
      IsLeaderMayChange = (\<lambda>m lp cp. leaderMayChange m),
      GetLatestFileSn = latestFileSn,
      SetServerUnstable = (\<lambda>m addr. (0, m)),
      SetChunkserverUnstable = (\<lambda>m csid. m),
      ClearTimeout = (\<lambda>m csid ep. m),
      IncreTimeout = (\<lambda>m csid. m),
      GetCurrentUnstableState = (\<lambda>m csid ep. (NoUnstable, m))\<rparr>"

definition parse0 :: "string \<Rightarrow> int \<times> EndPoint" where
  "parse0 str =
     (if str = [] then (- 1, \<lparr>ip = [], port = 0\<rparr>) else (0, \<lparr>ip = str, port = length str\<rparr>))"

definition env0 :: "FailureRequestOption \<Rightarrow> BackoffParam \<Rightarrow> Cache0 Env" where
  "env0 opt bp =
     \<lparr>failReqOpt = opt, backoffParam = bp, codes = codes0, mc = cache0_ops, Parse = parse0\<rparr>"

definition cache0 :: "ChunkServerID option \<Rightarrow> ChunkServerID option \<Rightarrow> Cache0" where
  "cache0 known authority =
     \<lparr>known_leader = known, authority_leader = authority, latestFileSn = 9,
      leaderMayChange = True\<rparr>"

definition ctx0 :: "OpType \<Rightarrow> byte list \<Rightarrow> RequestContext" where
  "ctx0 op buf =
     \<lparr>idinfo = \<lparr>cid = 1, cpid = 2, lpid = 3\<rparr>, optype = op, fileId = 4, epoch = 5, seq = 7,
      correctedSeq = 0, offset = 0, rawlength = 4, writeData = [1, 2, 3, 4], readData = buf,
      sourceInfo = [], location = [], chunksize = 16, chunkSn = []\<rparr>"

definition attempt0 :: "ClosureKind \<Rightarrow> int \<Rightarrow> int \<Rightarrow> string option \<Rightarrow> Attempt" where
  "attempt0 k err st hint =
     \<lparr>kind = k, chunkserverID = 1, chunkserverEndPoint = \<lparr>ip = ''10.0.0.1'', port = 8200\<rparr>,
      cntl_ErrorCode = err, cntl_latency_us = 50, cntl_response_attachment = [],
      response_status = st, response_redirect = hint, chunkinforesponse_redirect = hint,
      chunkinforesponse_chunksn = [], timeofday_ms = 2000, rand_value = 37\<rparr>"

text \<open>A closure as it stands when \<^verbatim>\<open>Run\<close> is entered, after \<open>n\<close> retries.\<close>

definition closure0 :: "u64 \<Rightarrow> RequestContext \<Rightarrow> Cache0 \<Rightarrow> Cache0 ClientClosure" where
  "closure0 n c m =
     \<lparr>reqDone = (RequestClosure_ctor 1000)\<lparr>retryTimes := n\<rparr>, reqCtx = c, metaCache = m,
      chunkIdInfo = idinfo c, retryDirectly = False, status = - 1, cntlstatus = 0, events = []\<rparr>"

text \<open>
  The environment of the examples: at most 3 retries, a retry interval of 100 us, sleeps of
  at most 1 s, timeouts from 1000 ms to 8000 ms.
\<close>

definition env1 :: "Cache0 Env" where
  "env1 = env0 (mk_opt 3 100 1000000 1000 8000) (mk_bp 3 5)"

section \<open>Properties of the backoff calculator\<close>

subsection \<open>Unsigned words and naturals\<close>

lemma unat_min_word: "unat (min a b) = min (unat a) (unat (b::'a::len word))"
  by (simp add: min_def word_le_nat_alt)

lemma unat_max_word: "unat (max a b) = max (unat a) (unat (b::'a::len word))"
  by (simp add: max_def word_le_nat_alt)

lemma shl_int_one_small: "k < 31 \<Longrightarrow> shl_int_one k = Some (2 ^ unat k)"
  by (simp add: shl_int_one_def)

lemma unat_mult_pow2:
  assumes "unat (b::u64) * 2 ^ k < 2 ^ 64"
  shows "unat (b * 2 ^ k) = unat b * 2 ^ k"
proof (cases "b = 0")
  case True then show ?thesis by simp
next
  case False
  then have "0 < unat b" by (simp add: unat_gt_0)
  then have "(2::nat) ^ k \<le> unat b * 2 ^ k" by simp
  with assms have lt: "(2::nat) ^ k < 2 ^ 64" by linarith
  have k: "k < 64"
  proof (rule ccontr)
    assume "\<not> k < 64"
    then have "(2::nat) ^ 64 \<le> 2 ^ k" by (intro power_increasing) simp_all
    with lt show False by linarith
  qed
  have u: "unat ((2::u64) ^ k) = 2 ^ k"
  proof -
    have "unat ((2::u64) ^ k) = unat (of_nat (2 ^ k) :: u64)" by simp
    also have "\<dots> = 2 ^ k" using lt by (simp only: unat_of_nat) simp
    finally show ?thesis .
  qed
  have "unat b * unat ((2::u64) ^ k) < 2 ^ LENGTH(64)" using assms u by simp
  then have "unat (b * 2 ^ k) = unat b * unat ((2::u64) ^ k)" by (rule unat_mult_lem[THEN iffD1])
  with u show ?thesis by simp
qed

lemma TimeoutBackOff_unat:
  assumes "maxTimeoutPow bp < 31"
    and "unat (chunkserverRPCTimeoutMS opt) * 2 ^ unat (maxTimeoutPow bp) < 2 ^ 64"
  shows "\<exists>t. TimeoutBackOff opt bp n = Some t \<and>
           unat t = max (unat (chunkserverRPCTimeoutMS opt))
                      (min (unat (chunkserverMaxRPCTimeoutMS opt))
                         (spec_backoff_term (unat (chunkserverRPCTimeoutMS opt)) (unat (maxTimeoutPow bp)) (unat n)))"
proof -
  let ?k = "min n (maxTimeoutPow bp)"
  have k31: "?k < 31" using assms(1) by (rule min.strict_coboundedI2)
  have uk: "unat ?k = min (unat n) (unat (maxTimeoutPow bp))" by (rule unat_min_word)
  have "unat (chunkserverRPCTimeoutMS opt) * 2 ^ unat ?k \<le> unat (chunkserverRPCTimeoutMS opt) * 2 ^ unat (maxTimeoutPow bp)"
    unfolding uk by (intro mult_le_mono2 power_increasing) simp_all
  with assms(2) have "unat (chunkserverRPCTimeoutMS opt) * 2 ^ unat ?k < 2 ^ 64" by linarith
  then have m: "unat (chunkserverRPCTimeoutMS opt * 2 ^ unat ?k) = unat (chunkserverRPCTimeoutMS opt) * 2 ^ unat ?k"
    by (rule unat_mult_pow2)
  show ?thesis
    using m uk
    by (simp add: TimeoutBackOff_def Let_def shl_int_one_small[OF k31] unat_min_word unat_max_word
        spec_backoff_term_def max.commute min.commute)
qed

lemma OverLoadBackOff_unat:
  fixes opt :: FailureRequestOption and bp :: BackoffParam and n rnd :: u64
  assumes "maxOverloadPow bp < 31"
    and "unat (chunkserverOPRetryIntervalUS opt) * 2 ^ unat (maxOverloadPow bp)
           + unat (chunkserverOPRetryIntervalUS opt) * 2 ^ unat (maxOverloadPow bp) div 5 < 2 ^ 64"
  defines "s \<equiv> spec_backoff_term (unat (chunkserverOPRetryIntervalUS opt)) (unat (maxOverloadPow bp)) (unat n)"
  shows "\<exists>t r. OverLoadBackOff opt bp rnd n = Some t \<and> r \<le> s div 5 \<and>
           unat t = max (unat (chunkserverOPRetryIntervalUS opt))
                      (min (unat (chunkserverMaxRetrySleepIntervalUS opt)) (s - s div 10 + r))"
proof -
  let ?b = "chunkserverOPRetryIntervalUS opt"
  let ?k = "min n (maxOverloadPow bp)"
  let ?S = "unat ?b * 2 ^ unat (maxOverloadPow bp)"
  have k31: "?k < 31" using assms(1) by (rule min.strict_coboundedI2)
  have uk: "unat ?k = min (unat n) (unat (maxOverloadPow bp))" by (rule unat_min_word)
  have sS: "s \<le> ?S"
    unfolding s_def spec_backoff_term_def by (intro mult_le_mono2 power_increasing) simp_all
  then have s5: "s + s div 5 < 2 ^ 64" using assms(2) div_le_mono[OF sS, of 5] by linarith
  then have "unat ?b * 2 ^ unat ?k < 2 ^ 64" unfolding s_def spec_backoff_term_def uk by linarith
  then have "unat (?b * 2 ^ unat ?k) = unat ?b * 2 ^ unat ?k" by (rule unat_mult_pow2)
  then have w: "unat (?b * 2 ^ unat ?k) = s" unfolding s_def spec_backoff_term_def uk .
  define w where "w = ?b * 2 ^ unat ?k"
  have uw: "unat w = s" using w by (simp add: w_def)
  have d5: "unat (w div 5) = s div 5" by (simp add: unat_div uw)
  have d10: "unat (w div 10) = s div 10" by (simp add: unat_div uw)
  have "unat (w div 5) + unat (1::u64) < 2 ^ LENGTH(64)" using d5 s5 by simp
  then have "unat (w div 5 + 1) = unat (w div 5) + unat (1::u64)" by (rule unat_add_lem[THEN iffD1])
  then have m1: "unat (w div 5 + 1) = s div 5 + 1" using d5 by simp
  define r where "r = unat (rnd mod (w div 5 + 1))"
  have ur: "r = unat rnd mod (s div 5 + 1)" by (simp add: r_def unat_mod m1)
  have r5: "r \<le> s div 5" unfolding ur by (metis less_Suc_eq_le mod_less_divisor Suc_eq_plus1 zero_less_Suc)
  have le: "w div 10 \<le> w" by (simp add: word_le_nat_alt d10 uw)
  have sub: "unat (w - w div 10) = s - s div 10" using le by (simp add: unat_sub d10 uw)
  have "unat (w - w div 10) + unat (rnd mod (w div 5 + 1)) < 2 ^ LENGTH(64)"
    using sub r5 s5 by (simp add: r_def)
  then have "unat ((w - w div 10) + rnd mod (w div 5 + 1)) = unat (w - w div 10) + unat (rnd mod (w div 5 + 1))"
    by (rule unat_add_lem[THEN iffD1])
  then have tot: "unat (w + (rnd mod (w div 5 + 1) - w div 10)) = s - s div 10 + r"
    using sub by (simp add: r_def algebra_simps)
  have "OverLoadBackOff opt bp rnd n =
      Some (max (min (w + (rnd mod (w div 5 + 1) - w div 10)) (chunkserverMaxRetrySleepIntervalUS opt)) ?b)"
    by (simp add: OverLoadBackOff_def Let_def shl_int_one_small[OF k31] w_def)
  moreover have "unat (max (min (w + (rnd mod (w div 5 + 1) - w div 10)) (chunkserverMaxRetrySleepIntervalUS opt)) ?b)
     = max (unat ?b) (min (unat (chunkserverMaxRetrySleepIntervalUS opt)) (s - s div 10 + r))"
    by (simp add: unat_min_word unat_max_word tot max.commute min.commute)
  ultimately show ?thesis using r5 by blast
qed

subsection \<open>Timeout backoff\<close>

text \<open>
  Claim C4, as the code has it. Assume the shift does not overflow: \<open>maxTimeoutPow\<close> is
  below 31 and the base timeout times \<open>2 ^ maxTimeoutPow\<close> fits 64 bits. Then for every
  retry count \<open>n\<close>, \<open>TimeoutBackOff n\<close> has a result, which is the base timeout times
  \<open>2 ^ min n maxTimeoutPow\<close>, cut to at most the maximal timeout first and raised to at
  least the base timeout last. It is never below the base timeout; it is at most the
  maximal timeout whenever the base timeout is; and it does not decrease when \<open>n\<close> grows.
\<close>

theorem TimeoutBackOff_clamped:
  assumes "maxTimeoutPow bp < 31"
    and "unat (chunkserverRPCTimeoutMS opt) * 2 ^ unat (maxTimeoutPow bp) < 2 ^ 64"
  shows "\<exists>t. TimeoutBackOff opt bp n = Some t \<and>
           int (unat t) = spec_clamp (int (unat (chunkserverRPCTimeoutMS opt))) (int (unat (chunkserverMaxRPCTimeoutMS opt)))
                      (int (spec_backoff_term (unat (chunkserverRPCTimeoutMS opt)) (unat (maxTimeoutPow bp)) (unat n))) \<and>
           chunkserverRPCTimeoutMS opt \<le> t \<and>
           (chunkserverRPCTimeoutMS opt \<le> chunkserverMaxRPCTimeoutMS opt \<longrightarrow> t \<le> chunkserverMaxRPCTimeoutMS opt) \<and>
           (\<forall>m. n \<le> m \<longrightarrow> (\<exists>t'. TimeoutBackOff opt bp m = Some t' \<and> t \<le> t'))"
proof -
  obtain t where t: "TimeoutBackOff opt bp n = Some t"
     and ut: "unat t = max (unat (chunkserverRPCTimeoutMS opt))
                      (min (unat (chunkserverMaxRPCTimeoutMS opt))
                         (spec_backoff_term (unat (chunkserverRPCTimeoutMS opt)) (unat (maxTimeoutPow bp)) (unat n)))"
    using TimeoutBackOff_unat[OF assms] by blast
  have mono: "\<exists>t'. TimeoutBackOff opt bp m = Some t' \<and> t \<le> t'" if nm: "n \<le> m" for m
  proof -
    obtain t' where t': "TimeoutBackOff opt bp m = Some t'"
     and ut': "unat t' = max (unat (chunkserverRPCTimeoutMS opt))
                      (min (unat (chunkserverMaxRPCTimeoutMS opt))
                         (spec_backoff_term (unat (chunkserverRPCTimeoutMS opt)) (unat (maxTimeoutPow bp)) (unat m)))"
      using TimeoutBackOff_unat[OF assms] by blast
    have "unat n \<le> unat m" using nm by (simp add: word_le_nat_alt)
    then have "spec_backoff_term (unat (chunkserverRPCTimeoutMS opt)) (unat (maxTimeoutPow bp)) (unat n)
       \<le> spec_backoff_term (unat (chunkserverRPCTimeoutMS opt)) (unat (maxTimeoutPow bp)) (unat m)"
      unfolding spec_backoff_term_def by (intro mult_le_mono2 power_increasing) simp_all
    then have "unat t \<le> unat t'" unfolding ut ut' by (simp add: max.coboundedI2 min.coboundedI2)
    with t' show ?thesis by (simp add: word_le_nat_alt)
  qed
  have c: "int (unat t) = spec_clamp (int (unat (chunkserverRPCTimeoutMS opt))) (int (unat (chunkserverMaxRPCTimeoutMS opt)))
                      (int (spec_backoff_term (unat (chunkserverRPCTimeoutMS opt)) (unat (maxTimeoutPow bp)) (unat n)))"
    unfolding ut spec_clamp_def by (simp only: of_nat_max of_nat_min)
  have lo: "chunkserverRPCTimeoutMS opt \<le> t" unfolding word_le_nat_alt ut by simp
  have hi: "t \<le> chunkserverMaxRPCTimeoutMS opt" if "chunkserverRPCTimeoutMS opt \<le> chunkserverMaxRPCTimeoutMS opt"
    using that unfolding word_le_nat_alt ut by simp
  show ?thesis
    using t c lo hi mono by blast
qed


text \<open>
  A configuration with base timeout 1000, maximal timeout 8000 and \<open>maxTimeoutPow = 3\<close>:
  the timeout after 2 retries is 4000, after 7 retries it is 8000.
\<close>

theorem TimeoutBackOff_clamped_witness:
  "TimeoutBackOff (mk_opt 3 100 1000000 1000 8000) (mk_bp 3 5) 2 = Some 4000 \<and>
   TimeoutBackOff (mk_opt 3 100 1000000 1000 8000) (mk_bp 3 5) 7 = Some 8000 \<and>
   spec_clamp 1000 8000 (int (spec_backoff_term 1000 3 2)) = 4000"
proof -
  have h1: "maxTimeoutPow (mk_bp 3 5) < 31" by (simp add: mk_bp_def)
  have h2: "unat (chunkserverRPCTimeoutMS (mk_opt 3 100 1000000 1000 8000)) * 2 ^ unat (maxTimeoutPow (mk_bp 3 5)) < 2 ^ 64"
    by (simp add: mk_bp_def mk_opt_def)
  from TimeoutBackOff_clamped[OF h1 h2, of 2]
  obtain t where t: "TimeoutBackOff (mk_opt 3 100 1000000 1000 8000) (mk_bp 3 5) 2 = Some t"
    and c: "int (unat t) = spec_clamp 1000 8000 (int (spec_backoff_term 1000 3 2))"
    and m: "\<exists>t'. TimeoutBackOff (mk_opt 3 100 1000000 1000 8000) (mk_bp 3 5) 7 = Some t' \<and> t \<le> t'"
    by (auto simp: mk_bp_def mk_opt_def)
  have v: "TimeoutBackOff (mk_opt 3 100 1000000 1000 8000) (mk_bp 3 5) 2 = Some 4000"
      "TimeoutBackOff (mk_opt 3 100 1000000 1000 8000) (mk_bp 3 5) 7 = Some 8000"
    by (simp_all add: TimeoutBackOff_def mk_opt_def mk_bp_def shl_int_one_def Let_def)
  show ?thesis using v t c by (simp add: spec_clamp_def spec_backoff_term_def)
qed


text \<open>
  Claim C4 as it is written says that the result always lies between the base and the
  maximal timeout, under the only assumption that the shift does not overflow. With a base
  timeout of 1000 and a maximal timeout of 500 the shift does not overflow, and the result
  is 1000, which is above the maximal timeout: \<^verbatim>\<open>std::max\<close> with the base timeout is applied
  last.
\<close>

theorem TimeoutBackOff_counterexample:
  "maxTimeoutPow (mk_bp 0 0) < 31 \<and>
   unat (chunkserverRPCTimeoutMS (mk_opt 3 200 100 1000 500)) * 2 ^ unat (maxTimeoutPow (mk_bp 0 0)) < 2 ^ 64 \<and>
   TimeoutBackOff (mk_opt 3 200 100 1000 500) (mk_bp 0 0) 0 = Some 1000 \<and>
   chunkserverMaxRPCTimeoutMS (mk_opt 3 200 100 1000 500) = 500 \<and> \<not> (1000 :: u64) \<le> 500"
  by (simp add: TimeoutBackOff_def mk_opt_def mk_bp_def shl_int_one_def Let_def)


subsection \<open>Overload backoff\<close>

text \<open>
  Claim C5, as the code has it. Assume that \<open>maxOverloadPow\<close> is below 31 and that the
  largest term \<open>S = base * 2 ^ maxOverloadPow\<close> with a fifth of it added fits 64 bits. Let
  \<open>s = base * 2 ^ min n maxOverloadPow\<close>. Then for every retry count \<open>n\<close> and every draw,
  \<open>OverLoadBackOff n\<close> has a result, which is \<open>s + j\<close> cut to at most the maximal sleep first
  and raised to at least the base interval last, for a jitter \<open>j\<close> that is at least
  \<open>- (s div 10)\<close> and, when \<open>s mod 10 < 5\<close>, at most \<open>s div 10\<close>. The wrap-around of the
  unsigned subtraction has cancelled: \<open>s + j\<close> is computed on the integers. The result is
  never below the base interval, and it is at most the maximal sleep whenever the base
  interval is.
\<close>

theorem OverLoadBackOff_jitter_clamped:
  fixes opt :: FailureRequestOption and bp :: BackoffParam and n rnd :: u64
  assumes "maxOverloadPow bp < 31"
    and "unat (chunkserverOPRetryIntervalUS opt) * 2 ^ unat (maxOverloadPow bp)
           + unat (chunkserverOPRetryIntervalUS opt) * 2 ^ unat (maxOverloadPow bp) div 5 < 2 ^ 64"
  defines "s \<equiv> spec_backoff_term (unat (chunkserverOPRetryIntervalUS opt)) (unat (maxOverloadPow bp)) (unat n)"
  shows "\<exists>t j. OverLoadBackOff opt bp rnd n = Some t \<and>
           - int (s div 10) \<le> j \<and> (s mod 10 < 5 \<longrightarrow> j \<le> int (s div 10)) \<and>
           int (unat t) = spec_clamp (int (unat (chunkserverOPRetryIntervalUS opt)))
                            (int (unat (chunkserverMaxRetrySleepIntervalUS opt))) (int s + j) \<and>
           chunkserverOPRetryIntervalUS opt \<le> t \<and>
           (chunkserverOPRetryIntervalUS opt \<le> chunkserverMaxRetrySleepIntervalUS opt \<longrightarrow>
              t \<le> chunkserverMaxRetrySleepIntervalUS opt)"
proof -
  obtain t r where t: "OverLoadBackOff opt bp rnd n = Some t" and r: "r \<le> s div 5"
    and ut: "unat t = max (unat (chunkserverOPRetryIntervalUS opt))
                      (min (unat (chunkserverMaxRetrySleepIntervalUS opt)) (s - s div 10 + r))"
    using OverLoadBackOff_unat[OF assms(1,2), of rnd n] unfolding s_def by blast
  define j where "j = int r - int (s div 10)"
  have j1: "- int (s div 10) \<le> j" by (simp add: j_def)
  have j2: "j \<le> int (s div 10)" if "s mod 10 < 5"
  proof -
    have "s div 5 = 2 * (s div 10)" using that by presburger
    with r show ?thesis by (simp add: j_def)
  qed
  have "s div 10 \<le> s" by simp
  then have sj: "int (s - s div 10 + r) = int s + j" by (simp add: j_def)
  have c: "int (unat t) = spec_clamp (int (unat (chunkserverOPRetryIntervalUS opt)))
                            (int (unat (chunkserverMaxRetrySleepIntervalUS opt))) (int s + j)"
    unfolding ut spec_clamp_def sj[symmetric] by (simp only: of_nat_max of_nat_min)
  have lo: "chunkserverOPRetryIntervalUS opt \<le> t" unfolding word_le_nat_alt ut by simp
  have hi: "t \<le> chunkserverMaxRetrySleepIntervalUS opt"
    if "chunkserverOPRetryIntervalUS opt \<le> chunkserverMaxRetrySleepIntervalUS opt"
    using that unfolding word_le_nat_alt ut by simp
  show ?thesis using t j1 j2 c lo hi by blast
qed


text \<open>
  Base interval 100, maximal sleep 1000000, \<open>maxOverloadPow = 5\<close>, 2 retries, draw 37: the
  term is 400, the draw modulo 81 is 37, the sleep is \<open>400 - 40 + 37 = 397\<close>.
\<close>

theorem OverLoadBackOff_jitter_clamped_witness:
  "OverLoadBackOff (mk_opt 3 100 1000000 1000 8000) (mk_bp 3 5) 37 2 = Some 397 \<and>
   spec_backoff_term 100 5 2 = 400 \<and>
   spec_clamp 100 1000000 (400 - 40) \<le> 397 \<and> 397 \<le> spec_clamp 100 1000000 (400 + 40)"
proof -
  have h1: "maxOverloadPow (mk_bp 3 5) < 31" by (simp add: mk_bp_def)
  have h2: "unat (chunkserverOPRetryIntervalUS (mk_opt 3 100 1000000 1000 8000)) * 2 ^ unat (maxOverloadPow (mk_bp 3 5))
           + unat (chunkserverOPRetryIntervalUS (mk_opt 3 100 1000000 1000 8000)) * 2 ^ unat (maxOverloadPow (mk_bp 3 5)) div 5 < 2 ^ 64"
    by (simp add: mk_bp_def mk_opt_def)
  have s: "spec_backoff_term 100 5 2 = 400" by (simp add: spec_backoff_term_def)
  from OverLoadBackOff_jitter_clamped[OF h1 h2, of 37 2]
  obtain t j where t: "OverLoadBackOff (mk_opt 3 100 1000000 1000 8000) (mk_bp 3 5) 37 2 = Some t"
    and j1: "- 40 \<le> j" and j2: "j \<le> 40"
    and c: "int (unat t) = spec_clamp 100 1000000 (400 + j)"
    by (auto simp: mk_bp_def mk_opt_def s)
  have v: "OverLoadBackOff (mk_opt 3 100 1000000 1000 8000) (mk_bp 3 5) 37 2 = Some 397"
    by (simp add: OverLoadBackOff_def mk_opt_def mk_bp_def shl_int_one_def Let_def)
  show ?thesis using v s by (simp add: spec_clamp_def)
qed


text \<open>
  Claim C5 as it is written fails in three ways.
  \<^item> Base interval 5, maximal sleep 100, no retries, draw 1: the term \<open>s\<close> is 5, the result
    is 6. The claim allows at most \<open>s + s div 10 = 5\<close>; the jitter of 1 is a fifth of \<open>s\<close>,
    since the draw ranges over \<open>s div 5 + 1\<close> values and only \<open>s div 10\<close> is subtracted.
  \<^item> Base interval 200 and maximal sleep 100: the result is 200, above the maximal sleep.
  \<^item> Base interval 1, maximal sleep \<open>2 ^ 32\<close>, \<open>maxOverloadPow = 32\<close> and 32 retries: the
    shift of an \<^verbatim>\<open>int\<close> by 32 has no defined result.
\<close>

theorem OverLoadBackOff_counterexample:
  "OverLoadBackOff (mk_opt 3 5 100 1000 8000) (mk_bp 3 4) 1 0 = Some 6 \<and>
   spec_clamp 5 100 (int (spec_backoff_term 5 4 0) + int (spec_backoff_term 5 4 0 div 10)) = 5 \<and>
   OverLoadBackOff (mk_opt 3 200 100 1000 8000) (mk_bp 3 0) 0 0 = Some 200 \<and>
   OverLoadBackOff (mk_opt 3 1 4294967296 1000 8000) (mk_bp 3 32) 0 32 = None"
  by (simp add: OverLoadBackOff_def mk_opt_def mk_bp_def shl_int_one_def Let_def spec_clamp_def spec_backoff_term_def)

section \<open>Properties of the inflight throttle\<close>

lemma throttle_after_max: "maxInflightRequest (foldl throttle_call t calls) = maxInflightRequest t"
proof (induction calls arbitrary: t)
  case Nil
  show ?case by simp
next
  case (Cons c calls)
  have "maxInflightRequest (throttle_call t c) = maxInflightRequest t"
    by (cases c) (simp_all add: Increment_def Decrement_def)
  with Cons show ?case by simp
qed

lemma IsOverLoad_iff: "IsOverLoad t \<longleftrightarrow> unat (maxInflightRequest t) < unat (inflightRequestCount t)"
  by (simp add: IsOverLoad_def word_le_nat_alt not_le)


text \<open>
  Claim C10. After construction with limit \<open>maxInflight\<close> and any sequence of
  \<^verbatim>\<open>Increment\<close> and \<^verbatim>\<open>Decrement\<close> calls, \<^verbatim>\<open>IsOverLoad()\<close> is true exactly when the count is
  strictly above \<open>maxInflight\<close> (both read as unsigned 64-bit values); in particular a count
  equal to \<open>maxInflight\<close> is not an overload.
\<close>

theorem IsOverLoad_iff_exceeds:
  "(IsOverLoad (throttle_after maxInflight calls) \<longleftrightarrow>
      unat maxInflight < unat (inflightRequestCount (throttle_after maxInflight calls))) \<and>
   (inflightRequestCount (throttle_after maxInflight calls) = maxInflight \<longrightarrow>
      \<not> IsOverLoad (throttle_after maxInflight calls))"
proof -
  have "maxInflightRequest (throttle_after maxInflight calls) = maxInflight"
    by (simp add: throttle_after_def throttle_after_max InflightThrottle_ctor_def)
  then show ?thesis by (simp add: IsOverLoad_iff)
qed


text \<open>Limit 2: two requests in flight are no overload, three are.\<close>

theorem IsOverLoad_iff_exceeds_witness:
  "\<not> IsOverLoad (throttle_after 2 [CallIncrement, CallIncrement]) \<and>
   inflightRequestCount (throttle_after 2 [CallIncrement, CallIncrement]) = 2 \<and>
   IsOverLoad (throttle_after 2 [CallIncrement, CallIncrement, CallIncrement]) \<and>
   \<not> IsOverLoad (throttle_after 2 [CallIncrement, CallDecrement])"
  using IsOverLoad_iff_exceeds[of 2 "[CallIncrement, CallIncrement]"]
    IsOverLoad_iff_exceeds[of 2 "[CallIncrement, CallIncrement, CallIncrement]"]
    IsOverLoad_iff_exceeds[of 2 "[CallIncrement, CallDecrement]"]
  by (simp add: throttle_after_def InflightThrottle_ctor_def Increment_def Decrement_def)

section \<open>Frame properties of the handlers\<close>

lemma quiet_stepI:
  "events s' = events s @ tr \<Longrightarrow> filter is_control tr = [] \<Longrightarrow>
   reqDone s' = (reqDone s)\<lparr>errcode := errcode (reqDone s')\<rparr> \<Longrightarrow>
   cntlstatus s' = cntlstatus s \<Longrightarrow> chunkIdInfo s' = chunkIdInfo s \<Longrightarrow> quiet_step s s'"
  by (simp add: quiet_step_def attempt_events_def)

lemma quiet_stepD:
  assumes "quiet_step s s'"
  shows "events s' = events s @ attempt_events s s'"
    and "filter is_control (attempt_events s s') = []"
    and "reqDone s' = (reqDone s)\<lparr>errcode := errcode (reqDone s')\<rparr>"
    and "cntlstatus s' = cntlstatus s" and "chunkIdInfo s' = chunkIdInfo s"
proof -
  have "take (length (events s)) (events s') = events s"
    using assms by (simp add: quiet_step_def)
  then show "events s' = events s @ attempt_events s s'"
    unfolding attempt_events_def by (metis append_take_drop_id)
qed (use assms in \<open>simp_all add: quiet_step_def\<close>)

lemma quiet_step_refl: "quiet_step s s"
  by (simp add: quiet_step_def attempt_events_def)

lemma quiet_step_trans:
  assumes "quiet_step s s1" and "quiet_step s1 s2"
  shows "quiet_step s s2"
proof (rule quiet_stepI)
  show "events s2 = events s @ (attempt_events s s1 @ attempt_events s1 s2)"
    using quiet_stepD(1)[OF assms(1)] quiet_stepD(1)[OF assms(2)] by simp
  show "filter is_control (attempt_events s s1 @ attempt_events s1 s2) = []"
    using quiet_stepD(2)[OF assms(1)] quiet_stepD(2)[OF assms(2)] by simp
  show "reqDone s2 = (reqDone s)\<lparr>errcode := errcode (reqDone s2)\<rparr>"
    using quiet_stepD(3)[OF assms(1)] quiet_stepD(3)[OF assms(2)]
    by (metis RequestClosure.update_convs(3) RequestClosure.surjective)
  show "cntlstatus s2 = cntlstatus s" "chunkIdInfo s2 = chunkIdInfo s"
    using quiet_stepD(4,5)[OF assms(1)] quiet_stepD(4,5)[OF assms(2)] by simp_all
qed

lemma quiet_RefreshLeader: "quiet_step s (RefreshLeader e a s)"
  by (simp add: quiet_step_def attempt_events_def RefreshLeader_def emit_def Let_def split: prod.splits)

lemma quiet_UpdateLeaderWithRedirectInfo: "quiet_step s (snd (UpdateLeaderWithRedirectInfo e a h s))"
  by (simp add: quiet_step_def attempt_events_def UpdateLeaderWithRedirectInfo_def emit_def Let_def split: prod.splits)

lemma quiet_redirected_with: "quiet_step s (redirected_with e a r s)"
proof (cases r)
  case None
  then show ?thesis by (simp add: redirected_with_def quiet_RefreshLeader)
next
  case (Some h)
  obtain ret s1 where u: "UpdateLeaderWithRedirectInfo e a h s = (ret, s1)" by (cases "UpdateLeaderWithRedirectInfo e a h s")
  have q1: "quiet_step s s1" using quiet_UpdateLeaderWithRedirectInfo[of s e a h] u by simp
  have "quiet_step s (RefreshLeader e a s1)" using q1 quiet_RefreshLeader by (rule quiet_step_trans)
  then show ?thesis using q1 Some u by (simp add: redirected_with_def)
qed

lemma quiet_ProcessUnstableState: "quiet_step s (ProcessUnstableState e a s)"
proof -
  obtain st m where g: "GetCurrentUnstableState (mc e) (metaCache s) (chunkserverID a) (chunkserverEndPoint a) = (st, m)"
    by (cases "GetCurrentUnstableState (mc e) (metaCache s) (chunkserverID a) (chunkserverEndPoint a)")
  have q0: "quiet_step s (s\<lparr>metaCache := m\<rparr>)" by (simp add: quiet_step_def attempt_events_def)
  show ?thesis
  proof (cases st)
    case NoUnstable
    have "quiet_step s (RefreshLeader e a (s\<lparr>metaCache := m\<rparr>))"
      using q0 quiet_RefreshLeader by (rule quiet_step_trans)
    then show ?thesis using g NoUnstable by (simp add: ProcessUnstableState_def)
  next
    case ChunkServerUnstable
    then show ?thesis using g by (simp add: ProcessUnstableState_def quiet_step_def attempt_events_def)
  next
    case ServerUnstable
    then show ?thesis using g
      by (simp add: ProcessUnstableState_def quiet_step_def attempt_events_def Let_def split: prod.splits)
  qed
qed

lemma status_RefreshLeader: "status (RefreshLeader e a s) = status s"
  by (simp add: RefreshLeader_def emit_def Let_def split: prod.splits)

lemma status_UpdateLeaderWithRedirectInfo: "status (snd (UpdateLeaderWithRedirectInfo e a h s)) = status s"
  by (simp add: UpdateLeaderWithRedirectInfo_def emit_def Let_def split: prod.splits)

lemma status_redirected_with: "status (redirected_with e a r s) = status s"
proof (cases r)
  case None
  then show ?thesis by (simp add: redirected_with_def status_RefreshLeader)
next
  case (Some h)
  obtain ret s1 where u: "UpdateLeaderWithRedirectInfo e a h s = (ret, s1)" by (cases "UpdateLeaderWithRedirectInfo e a h s")
  have "status s1 = status s" using status_UpdateLeaderWithRedirectInfo[of e a h s] u by simp
  then show ?thesis using Some u by (simp add: redirected_with_def status_RefreshLeader)
qed

lemma status_ProcessUnstableState: "status (ProcessUnstableState e a s) = status s"
  by (simp add: ProcessUnstableState_def status_RefreshLeader Let_def split: prod.splits UnstableState.splits)

lemma attempt_events_append: "events s' = events s @ tr \<Longrightarrow> attempt_events s s' = tr"
  by (simp add: attempt_events_def)

lemma is_send_control: "is_send ev \<Longrightarrow> is_control ev"
  by (cases ev) simp_all

lemma no_control_no_send: "filter is_control tr = [] \<Longrightarrow> \<not> list_ex is_send tr"
  by (induction tr) (auto dest: is_send_control split: if_splits)

lemma quiet_step_status [simp]: "quiet_step (s\<lparr>status := st\<rparr>) s' = quiet_step s s'"
  by (simp add: quiet_step_def attempt_events_def)

lemma quiet_OnRpcFailed:
  "quiet_step s (OnRpcFailed e a s)"
proof -
  let ?s1 = "emit (EvResetSenderIfNotHealth (chunkserverID a)) s\<lparr>status := cntl_ErrorCode a\<rparr>"
  let ?s2 = "if cntlstatus ?s1 = ERPCTIMEDOUT (codes e)
               then emit (EvMetric IncremTimeOutRPCCount)
                      (?s1\<lparr>metaCache := IncreTimeout (mc e) (metaCache ?s1) (chunkserverID a)\<rparr>)
               else ?s1"
  have "quiet_step s ?s2"
    by (simp add: quiet_step_def attempt_events_def emit_def)
  moreover have "quiet_step ?s2 (ProcessUnstableState e a ?s2)" by (rule quiet_ProcessUnstableState)
  ultimately have "quiet_step s (ProcessUnstableState e a ?s2)" by (rule quiet_step_trans)
  then show ?thesis by (simp add: OnRpcFailed_def Let_def)
qed

lemma status_OnRpcFailed: "status (OnRpcFailed e a s) = cntl_ErrorCode a"
  by (simp add: OnRpcFailed_def Let_def status_ProcessUnstableState emit_def)

lemma quiet_simple_handlers:
  "quiet_step s (OnSuccess a s)" "quiet_step s (OnChunkNotExist a s)"
  "quiet_step s (OnInvalidRequest s)" "quiet_step s (OnChunkExist s)"
  "quiet_step s (OnEpochTooOld s)" "quiet_step s (OnBackward e s)"
  by (simp_all add: quiet_step_def attempt_events_def OnSuccess_def ClientClosure_OnSuccess_def
      OnChunkNotExist_def ClientClosure_OnChunkNotExist_def OnInvalidRequest_def OnChunkExist_def
      OnEpochTooOld_def OnBackward_def emit_def SetFailed_def Let_def)

lemma status_simple_handlers:
  "status (OnSuccess a s) = status s" "status (OnChunkNotExist a s) = status s"
  "status (OnInvalidRequest s) = status s" "status (OnChunkExist s) = status s"
  "status (OnEpochTooOld s) = status s" "status (OnBackward e s) = status s"
  by (simp_all add: OnSuccess_def ClientClosure_OnSuccess_def
      OnChunkNotExist_def ClientClosure_OnChunkNotExist_def OnInvalidRequest_def OnChunkExist_def
      OnEpochTooOld_def OnBackward_def emit_def SetFailed_def Let_def)

lemma quiet_status_switch: "quiet_step s (snd (status_switch e a s))"
proof -
  have q1: "quiet_step s (emit (EvMetric IncremRedirectRPCCount) s)"
    by (simp add: quiet_step_def attempt_events_def emit_def)
  have qr: "quiet_step s (OnRedirected e a (emit (EvMetric IncremRedirectRPCCount) s))"
    unfolding OnRedirected_def using q1 quiet_redirected_with by (rule quiet_step_trans)
  show ?thesis
    using qr
    by (simp add: status_switch_def quiet_simple_handlers quiet_step_refl OnCopysetNotExist_def quiet_RefreshLeader)
qed

lemma status_status_switch: "status (snd (status_switch e a s)) = status s"
  by (simp add: status_switch_def status_simple_handlers
      OnRedirected_def status_redirected_with OnCopysetNotExist_def status_RefreshLeader emit_def)

lemma quiet_Run_switch: "quiet_step (s\<lparr>chunkIdInfo := idinfo (reqCtx s), cntlstatus := cntl_ErrorCode a\<rparr>) (snd (Run_switch e a s))"
proof (cases "cntl_Failed a")
  case True
  have "quiet_step (s\<lparr>chunkIdInfo := idinfo (reqCtx s), status := - 1, cntlstatus := cntl_ErrorCode a\<rparr>)
          (OnRpcFailed e a (s\<lparr>chunkIdInfo := idinfo (reqCtx s), status := - 1, cntlstatus := cntl_ErrorCode a\<rparr>))"
    by (rule quiet_OnRpcFailed)
  then have "quiet_step (s\<lparr>chunkIdInfo := idinfo (reqCtx s), cntlstatus := cntl_ErrorCode a\<rparr>)
          (OnRpcFailed e a (s\<lparr>chunkIdInfo := idinfo (reqCtx s), status := - 1, cntlstatus := cntl_ErrorCode a\<rparr>))"
    by (simp add: quiet_step_def attempt_events_def)
  then show ?thesis using True by (simp add: Run_switch_def)
next
  case False
  obtain s1 where s1: "s1 = s\<lparr>chunkIdInfo := idinfo (reqCtx s), status := - 1, cntlstatus := cntl_ErrorCode a,
                metaCache := ClearTimeout (mc e) (metaCache s) (chunkserverID a) (chunkserverEndPoint a),
                status := response_status a\<rparr>" by simp
  have q0: "quiet_step (s\<lparr>chunkIdInfo := idinfo (reqCtx s), cntlstatus := cntl_ErrorCode a\<rparr>) s1"
    by (simp add: s1 quiet_step_def attempt_events_def)
  have "quiet_step s1 (snd (status_switch e a s1))" by (rule quiet_status_switch)
  with q0 have "quiet_step (s\<lparr>chunkIdInfo := idinfo (reqCtx s), cntlstatus := cntl_ErrorCode a\<rparr>) (snd (status_switch e a s1))" by (rule quiet_step_trans)
  moreover have "Run_switch e a s = status_switch e a s1"
    using False by (simp add: Run_switch_def Let_def s1)
  ultimately show ?thesis by simp
qed

lemma status_Run_switch: "status (snd (Run_switch e a s)) = last_status a"
  by (simp add: Run_switch_def Let_def last_status_def status_OnRpcFailed status_status_switch)

lemma needRetry_Run_switch:
  assumes "codes_wf (codes e)"
  shows "fst (Run_switch e a s) = spec_retryable (optype (reqCtx s)) (attempt_outcome e a)"
  using assms
  by (simp add: Run_switch_def status_switch_def Let_def attempt_outcome_def spec_classify_def cntl_Failed_def codes_wf_def)

lemma Run_switch_facts:
  fixes s :: "'m ClientClosure" and e :: "'m Env" and a :: Attempt
  defines "s1 \<equiv> snd (Run_switch e a s)"
  shows "events s1 = events s @ attempt_events s s1"
    and "filter is_control (attempt_events s s1) = []"
    and "reqDone s1 = (reqDone s)\<lparr>errcode := errcode (reqDone s1)\<rparr>"
    and "cntlstatus s1 = cntl_ErrorCode a" and "chunkIdInfo s1 = idinfo (reqCtx s)"
    and "status s1 = last_status a"
proof -
  have q: "quiet_step (s\<lparr>chunkIdInfo := idinfo (reqCtx s), cntlstatus := cntl_ErrorCode a\<rparr>) s1" unfolding s1_def by (rule quiet_Run_switch)
  have ae: "attempt_events (s\<lparr>chunkIdInfo := idinfo (reqCtx s), cntlstatus := cntl_ErrorCode a\<rparr>) s1 = attempt_events s s1"
    by (simp add: attempt_events_def)
  show "events s1 = events s @ attempt_events s s1"
    using quiet_stepD(1)[OF q] ae by simp
  show "filter is_control (attempt_events s s1) = []" using quiet_stepD(2)[OF q] ae by simp
  show "reqDone s1 = (reqDone s)\<lparr>errcode := errcode (reqDone s1)\<rparr>"
    using quiet_stepD(3)[OF q] by simp
  show "cntlstatus s1 = cntl_ErrorCode a" using quiet_stepD(4)[OF q] by simp
  show "chunkIdInfo s1 = idinfo (reqCtx s)" using quiet_stepD(5)[OF q] by simp
  show "status s1 = last_status a" unfolding s1_def by (rule status_Run_switch)
qed

lemma OnRetry_exhausted:
  assumes "chunkserverOPMaxRetry (failReqOpt e) \<le> retryTimes (reqDone s)"
  shows "OnRetry e a s = Some (emit EvDoneRun (SetFailed (status s) (emit (EvMetric IncremFailRPCCount) s)))"
  using assms by (simp add: OnRetry_def Let_def emit_def SetFailed_def)

lemma OnRetry_budget:
  assumes "retryTimes (reqDone s) < chunkserverOPMaxRetry (failReqOpt e)"
  shows "OnRetry e a s =
     map_option (SendRetryRequest a)
       (PreProcessBeforeRetry e a (status s) (cntlstatus s)
          (slow_request_check e a (emit (EvMetric IncremFailRPCCount) s)))"
proof -
  have "\<not> chunkserverOPMaxRetry (failReqOpt e) \<le> retryTimes (reqDone s)" using assms by simp
  then show ?thesis
    by (simp add: OnRetry_def Let_def emit_def slow_request_check_def MarkAsSlowRequest_def
        map_option_case split: option.splits)
qed

lemma slow_request_check_facts:
  "events (slow_request_check e a (emit (EvMetric IncremFailRPCCount) s)) = events s @
      (EvMetric IncremFailRPCCount #
       (if events (slow_request_check e a (emit (EvMetric IncremFailRPCCount) s)) = events s @ [EvMetric IncremFailRPCCount]
        then [] else [EvMetric IncremSlowRequestNum]))"
  "retryTimes (reqDone (slow_request_check e a (emit (EvMetric IncremFailRPCCount) s))) = retryTimes (reqDone s)"
  "reqCtx (slow_request_check e a (emit (EvMetric IncremFailRPCCount) s)) = reqCtx s"
  "metaCache (slow_request_check e a (emit (EvMetric IncremFailRPCCount) s)) = metaCache s"
  "retryDirectly (slow_request_check e a (emit (EvMetric IncremFailRPCCount) s)) = retryDirectly s"
  "chunkIdInfo (slow_request_check e a (emit (EvMetric IncremFailRPCCount) s)) = chunkIdInfo s"
  "nextTimeoutMS (reqDone (slow_request_check e a (emit (EvMetric IncremFailRPCCount) s))) = nextTimeoutMS (reqDone s)"
  "errcode (reqDone (slow_request_check e a (emit (EvMetric IncremFailRPCCount) s))) = errcode (reqDone s)"
  by (simp_all add: slow_request_check_def emit_def MarkAsSlowRequest_def)

section \<open>Auxiliary facts about the run of the closure\<close>

lemmas closure_defs =
  Run_def Run_switch_def status_switch_def OnRetry_def slow_request_check_def SendRetryRequest_def
  retry_rpc_def PreProcessBeforeRetry_def OnBackward_def OnInvalidRequest_def OnEpochTooOld_def
  OnChunkExist_def OnChunkNotExist_def ClientClosure_OnChunkNotExist_def OnSuccess_def
  ClientClosure_OnSuccess_def OnRpcFailed_def ProcessUnstableState_def OnCopysetNotExist_def
  OnRedirected_def reply_redirect_def redirected_with_def UpdateLeaderWithRedirectInfo_def
  RefreshLeader_def IOBuf_resize_def MarkAsSlowRequest_def SetNextTimeOutMS_def SetFailed_def
  emit_def cntl_Failed_def TimeoutBackOff_def OverLoadBackOff_def shl_int_one_def
  attempt_events_def last_status_def attempt_outcome_def spec_classify_def plain_sleep_def

lemmas instance_defs =
  env1_def env0_def cache0_ops_def cache0_def parse0_def codes0_def mk_opt_def mk_bp_def ctx0_def
  attempt0_def closure0_def RequestClosure_ctor_def Let_def word_le_nat_alt word_less_nat_alt

lemma codes_wf_env1: "codes_wf (codes env1)"
  by (simp add: codes_wf_def instance_defs)

lemma retryTimes_Run_switch: "retryTimes (reqDone (snd (Run_switch e a s))) = retryTimes (reqDone s)"
proof -
  have "reqDone (snd (Run_switch e a s)) = (reqDone s)\<lparr>errcode := errcode (reqDone (snd (Run_switch e a s)))\<rparr>"
    by (rule Run_switch_facts(3))
  then have "retryTimes (reqDone (snd (Run_switch e a s))) = retryTimes ((reqDone s)\<lparr>errcode := errcode (reqDone (snd (Run_switch e a s)))\<rparr>)"
    by simp
  then show ?thesis by simp
qed

lemma Run_terminal:
  assumes "\<not> fst (Run_switch e a s)"
  shows "Run e a s = Some (emit EvDoneRun (snd (Run_switch e a s)))"
    and "attempt_events s (emit EvDoneRun (snd (Run_switch e a s))) =
           attempt_events s (snd (Run_switch e a s)) @ [EvDoneRun]"
proof -
  show "Run e a s = Some (emit EvDoneRun (snd (Run_switch e a s)))"
    using assms by (cases "Run_switch e a s") (simp add: Run_def)
  have "events (emit EvDoneRun (snd (Run_switch e a s))) =
          events s @ (attempt_events s (snd (Run_switch e a s)) @ [EvDoneRun])"
    using Run_switch_facts(1)[of e a s] by (simp add: emit_def)
  then show "attempt_events s (emit EvDoneRun (snd (Run_switch e a s))) =
           attempt_events s (snd (Run_switch e a s)) @ [EvDoneRun]"
    by (rule attempt_events_append)
qed

lemma Run_retry:
  assumes "fst (Run_switch e a s)"
  shows "Run e a s = OnRetry e a (snd (Run_switch e a s))"
  using assms by (cases "Run_switch e a s") (simp add: Run_def)

lemma Run_exhausted:
  assumes "fst (Run_switch e a s)"
    and "chunkserverOPMaxRetry (failReqOpt e) \<le> retryTimes (reqDone s)"
  defines "s' \<equiv> emit EvDoneRun (SetFailed (last_status a)
                   (emit (EvMetric IncremFailRPCCount) (snd (Run_switch e a s))))"
  shows "Run e a s = Some s'"
    and "attempt_events s s' =
           attempt_events s (snd (Run_switch e a s)) @ [EvMetric IncremFailRPCCount, EvDoneRun]"
proof -
  have "chunkserverOPMaxRetry (failReqOpt e) \<le> retryTimes (reqDone (snd (Run_switch e a s)))"
    using assms(2) by (simp add: retryTimes_Run_switch)
  then show "Run e a s = Some s'"
    unfolding s'_def Run_retry[OF assms(1)] by (simp add: OnRetry_exhausted status_Run_switch)
  have "events s' = events s @ (attempt_events s (snd (Run_switch e a s)) @ [EvMetric IncremFailRPCCount, EvDoneRun])"
    using Run_switch_facts(1)[of e a s] by (simp add: s'_def emit_def SetFailed_def)
  then show "attempt_events s s' =
           attempt_events s (snd (Run_switch e a s)) @ [EvMetric IncremFailRPCCount, EvDoneRun]"
    by (rule attempt_events_append)
qed

lemma attempt_events_emit_chain:
  "attempt_events s (emit ev s) = [ev]"
  by (simp add: attempt_events_def emit_def)

lemma OnRetry_timeout_shortcut:
  assumes "retryTimes (reqDone s) < chunkserverOPMaxRetry (failReqOpt e)"
    and "cntlstatus s = ERPCTIMEDOUT (codes e) \<or> cntlstatus s = ETIMEDOUT (codes e)"
    and "retryTimes (reqDone s) < chunkserverMinRetryTimesForceTimeoutBackoff (failReqOpt e)"
    and "IsLeaderMayChange (mc e) (metaCache s) (lpid (chunkIdInfo s)) (cpid (chunkIdInfo s))"
  shows "\<exists>s'. OnRetry e a s = Some s' \<and>
           nextTimeoutMS (reqDone s') = chunkserverRPCTimeoutMS (failReqOpt e) \<and>
           filter is_control (attempt_events s s') = [EvSendRetryRequest (retry_rpc (kind a) (reqCtx s))]"
  using assms
  by (auto simp add: OnRetry_budget PreProcessBeforeRetry_def slow_request_check_def Let_def
      SendRetryRequest_def SetNextTimeOutMS_def MarkAsSlowRequest_def emit_def attempt_events_def)

lemma OnRetry_timeout_backoff:
  assumes "retryTimes (reqDone s) < chunkserverOPMaxRetry (failReqOpt e)"
    and "cntlstatus s = ERPCTIMEDOUT (codes e) \<or> cntlstatus s = ETIMEDOUT (codes e)"
    and "\<not> (retryTimes (reqDone s) < chunkserverMinRetryTimesForceTimeoutBackoff (failReqOpt e) \<and>
            IsLeaderMayChange (mc e) (metaCache s) (lpid (chunkIdInfo s)) (cpid (chunkIdInfo s)))"
  shows "TimeoutBackOff (failReqOpt e) (backoffParam e) (retryTimes (reqDone s)) = None \<Longrightarrow>
           OnRetry e a s = None"
    and "TimeoutBackOff (failReqOpt e) (backoffParam e) (retryTimes (reqDone s)) = Some t \<Longrightarrow>
           \<exists>s'. OnRetry e a s = Some s' \<and> nextTimeoutMS (reqDone s') = t \<and>
             filter is_control (attempt_events s s') = [EvSendRetryRequest (retry_rpc (kind a) (reqCtx s))]"
  using assms
  by (auto simp add: OnRetry_budget PreProcessBeforeRetry_def slow_request_check_def Let_def
      SendRetryRequest_def SetNextTimeOutMS_def MarkAsSlowRequest_def emit_def attempt_events_def)

lemma OnRetry_plain:
  assumes "retryTimes (reqDone s) < chunkserverOPMaxRetry (failReqOpt e)"
    and "cntlstatus s \<noteq> ERPCTIMEDOUT (codes e)" and "cntlstatus s \<noteq> ETIMEDOUT (codes e)"
    and "status s \<noteq> CHUNK_OP_STATUS_OVERLOAD (codes e)"
  shows "\<exists>s'. OnRetry e a s = Some s' \<and>
           filter is_control (attempt_events s s') =
             (if plain_sleep e s = 0 then [] else [EvSleep (plain_sleep e s)]) @
             [EvSendRetryRequest (retry_rpc (kind a) (reqCtx s))] \<and>
           take (length (events s)) (events s') = events s \<and>
           reqCtx s' = reqCtx s \<and> metaCache s' = metaCache s \<and>
           errcode (reqDone s') = errcode (reqDone s)"
  using assms
  by (auto simp add: OnRetry_budget PreProcessBeforeRetry_def slow_request_check_def Let_def
      SendRetryRequest_def MarkAsSlowRequest_def emit_def attempt_events_def plain_sleep_def)

lemma RefreshLeader_eq:
  assumes "GetLeader (mc e) (metaCache x) (lpid (chunkIdInfo x)) (cpid (chunkIdInfo x)) True = ((r, lid), m)"
  shows "RefreshLeader e a x =
           x\<lparr>metaCache := m,
             events := events x @ [EvGetLeader (lpid (chunkIdInfo x)) (cpid (chunkIdInfo x)) True],
             retryDirectly := (if r = - 1 then retryDirectly x else lid \<noteq> chunkserverID a)\<rparr>"
  using assms by (cases x) (simp add: RefreshLeader_def Let_def emit_def)

lemma Run_switch_ok:
  assumes "cntl_ErrorCode a = 0"
  shows "Run_switch e a s =
     status_switch e a
       (s\<lparr>chunkIdInfo := idinfo (reqCtx s), status := - 1, cntlstatus := cntl_ErrorCode a,
          metaCache := ClearTimeout (mc e) (metaCache s) (chunkserverID a) (chunkserverEndPoint a),
          status := response_status a\<rparr>)"
  using assms by (simp add: Run_switch_def cntl_Failed_def Let_def)

lemma codes_wf_notexist:
  assumes "codes_wf c"
  shows "CHUNK_OP_STATUS_CHUNK_NOTEXIST c \<noteq> CHUNK_OP_STATUS_SUCCESS c"
    and "CHUNK_OP_STATUS_CHUNK_NOTEXIST c \<noteq> CHUNK_OP_STATUS_REDIRECTED c"
    and "CHUNK_OP_STATUS_CHUNK_NOTEXIST c \<noteq> CHUNK_OP_STATUS_COPYSET_NOTEXIST c"
  using assms by (auto simp: codes_wf_def)

lemma codes_wf_backward:
  assumes "codes_wf c"
  shows "CHUNK_OP_STATUS_BACKWARD c \<noteq> CHUNK_OP_STATUS_SUCCESS c"
    and "CHUNK_OP_STATUS_BACKWARD c \<noteq> CHUNK_OP_STATUS_REDIRECTED c"
    and "CHUNK_OP_STATUS_BACKWARD c \<noteq> CHUNK_OP_STATUS_COPYSET_NOTEXIST c"
    and "CHUNK_OP_STATUS_BACKWARD c \<noteq> CHUNK_OP_STATUS_CHUNK_NOTEXIST c"
    and "CHUNK_OP_STATUS_BACKWARD c \<noteq> CHUNK_OP_STATUS_INVALID_REQUEST c"
    and "CHUNK_OP_STATUS_BACKWARD c \<noteq> CHUNK_OP_STATUS_OVERLOAD c"
    and "0 \<noteq> ERPCTIMEDOUT c" and "0 \<noteq> ETIMEDOUT c"
  using assms by (auto simp: codes_wf_def)

lemma Run_switch_chunk_notexist:
  assumes "codes_wf (codes e)" and "cntl_ErrorCode a = 0"
    and "response_status a = CHUNK_OP_STATUS_CHUNK_NOTEXIST (codes e)"
    and "kind a = ReadChunkClosure"
  shows "\<not> fst (Run_switch e a s)"
    and "errcode (reqDone (snd (Run_switch e a s))) = 0"
    and "readData (reqCtx (snd (Run_switch e a s))) =
           IOBuf_resize (rawlength (reqCtx s)) 0 (readData (reqCtx s))"
  using assms
  by (simp_all add: Run_switch_ok status_switch_def codes_wf_notexist OnChunkNotExist_def
      ClientClosure_OnChunkNotExist_def SetFailed_def emit_def Let_def)

lemma attempt_events_trans:
  assumes "events s1 = events s @ tr1" and "take (length (events s1)) (events s') = events s1"
  shows "attempt_events s s' = tr1 @ attempt_events s1 s'"
proof -
  have "events s' = events s1 @ drop (length (events s1)) (events s')"
    using assms(2) by (metis append_take_drop_id)
  then have "events s' = events s @ (tr1 @ attempt_events s1 s')"
    using assms(1) by (simp add: attempt_events_def)
  then show ?thesis by (rule attempt_events_append)
qed

lemma Run_switch_backward:
  assumes "codes_wf (codes e)" and "cntl_ErrorCode a = 0"
    and "response_status a = CHUNK_OP_STATUS_BACKWARD (codes e)"
  shows "fst (Run_switch e a s) = (optype (reqCtx s) = WRITE)"
    and "reqCtx (snd (Run_switch e a s)) =
           (if optype (reqCtx s) = WRITE
            then (reqCtx s)\<lparr>seq := GetLatestFileSn (mc e)
                   (ClearTimeout (mc e) (metaCache s) (chunkserverID a) (chunkserverEndPoint a))\<rparr>
            else reqCtx s)"
    and "retryDirectly (snd (Run_switch e a s)) = retryDirectly s"
  using assms
  by (simp_all add: Run_switch_ok status_switch_def codes_wf_backward OnBackward_def Let_def)


lemma codes_wf_redirected:
  assumes "codes_wf c"
  shows "CHUNK_OP_STATUS_REDIRECTED c \<noteq> CHUNK_OP_STATUS_SUCCESS c"
  using assms by (auto simp: codes_wf_def)

lemma Run_switch_redirected_eq:
  assumes "codes_wf (codes e)" and "cntl_ErrorCode a = 0"
    and "response_status a = CHUNK_OP_STATUS_REDIRECTED (codes e)"
  shows "Run_switch e a s =
     (True, OnRedirected e a
        (s\<lparr>chunkIdInfo := idinfo (reqCtx s), status := - 1, cntlstatus := cntl_ErrorCode a,
           metaCache := ClearTimeout (mc e) (metaCache s) (chunkserverID a) (chunkserverEndPoint a),
           status := response_status a,
           events := events s @ [EvMetric IncremRedirectRPCCount]\<rparr>))"
  using assms by (simp add: Run_switch_ok status_switch_def codes_wf_redirected emit_def)

subsection \<open>The read buffer until the request completes\<close>

text \<open>
  A run of the closure that re-sends the request leaves the read buffer as it was: the
  buffer is written only by the handlers of a success and of a missing chunk.
\<close>

lemma reqCtx_RefreshLeader: "reqCtx (RefreshLeader e a s) = reqCtx s"
  by (simp add: RefreshLeader_def emit_def Let_def split: prod.splits)

lemma reqCtx_UpdateLeaderWithRedirectInfo:
  "reqCtx (snd (UpdateLeaderWithRedirectInfo e a h s)) = reqCtx s"
  by (simp add: UpdateLeaderWithRedirectInfo_def emit_def Let_def split: prod.splits)

lemma reqCtx_redirected_with: "reqCtx (redirected_with e a r s) = reqCtx s"
proof (cases r)
  case None
  then show ?thesis by (simp add: redirected_with_def reqCtx_RefreshLeader)
next
  case (Some h)
  obtain ret s1 where u: "UpdateLeaderWithRedirectInfo e a h s = (ret, s1)"
    by (cases "UpdateLeaderWithRedirectInfo e a h s")
  have "reqCtx s1 = reqCtx s" using reqCtx_UpdateLeaderWithRedirectInfo[of e a h s] u by simp
  then show ?thesis using Some u by (simp add: redirected_with_def reqCtx_RefreshLeader)
qed

lemma reqCtx_OnRpcFailed: "reqCtx (OnRpcFailed e a s) = reqCtx s"
  by (simp add: OnRpcFailed_def ProcessUnstableState_def reqCtx_RefreshLeader emit_def Let_def
      split: prod.splits UnstableState.splits)

lemma readData_Run_switch_retry:
  assumes "fst (Run_switch e a s)"
  shows "readData (reqCtx (snd (Run_switch e a s))) = readData (reqCtx s)"
proof (cases "cntl_Failed a")
  case True
  then show ?thesis by (simp add: Run_switch_def reqCtx_OnRpcFailed)
next
  case False
  then show ?thesis using assms
    by (simp add: Run_switch_def status_switch_def Let_def OnRedirected_def reqCtx_redirected_with
        OnCopysetNotExist_def reqCtx_RefreshLeader OnBackward_def emit_def split: if_splits)
qed

lemma reqCtx_OnRetry:
  assumes "OnRetry e a s = Some s'"
  shows "reqCtx s' = reqCtx s"
  using assms
  by (auto simp add: OnRetry_def PreProcessBeforeRetry_def slow_request_check_def Let_def
      SendRetryRequest_def SetNextTimeOutMS_def MarkAsSlowRequest_def SetFailed_def emit_def
      split: if_splits option.splits)

lemma Run_resend_keeps_readData:
  assumes "Run e a s = Some s'" and "list_ex is_send (attempt_events s s')"
  shows "readData (reqCtx s') = readData (reqCtx s)"
proof (cases "fst (Run_switch e a s)")
  case True
  have "OnRetry e a (snd (Run_switch e a s)) = Some s'" using Run_retry[OF True] assms(1) by simp
  then have "reqCtx s' = reqCtx (snd (Run_switch e a s))" by (rule reqCtx_OnRetry)
  then show ?thesis using readData_Run_switch_retry[OF True] by simp
next
  case False
  have s': "s' = emit EvDoneRun (snd (Run_switch e a s))"
    using Run_terminal(1)[OF False] assms(1) by simp
  have "filter is_control (attempt_events s s') = [EvDoneRun]"
    unfolding s' using Run_terminal(2)[OF False] Run_switch_facts(2)[of s e a] by simp
  moreover have "list_ex is_send (filter is_control (attempt_events s s'))"
    using assms(2) by (auto simp: list_ex_iff is_send_control)
  ultimately show ?thesis by simp
qed

section \<open>Properties of the retry controller\<close>

subsection \<open>The retry gate\<close>

text \<open>
  Claim C1. Let the enumerators be numbered admissibly. For every closure and every
  completed attempt:
  \<^item> if \<^verbatim>\<open>Run\<close> re-sends the request (a \<^verbatim>\<open>SendRetryRequest\<close> is among the events it adds),
    then the retry count is strictly below \<^verbatim>\<open>chunkserverOPMaxRetry\<close> and the outcome of the
    attempt, classified as the specification does, is retryable;
  \<^item> if the retry count has reached \<^verbatim>\<open>chunkserverOPMaxRetry\<close>, then \<^verbatim>\<open>Run\<close> returns, it
    invokes the completion once, and it neither sleeps nor re-sends; and where the outcome
    is retryable, so that the retry gate is reached, the error code is the last status:
    the transport error code, or else the status of the reply.
\<close>

theorem Run_retry_gate:
  assumes wf: "codes_wf (codes e)"
  shows "(\<forall>s'. Run e a s = Some s' \<longrightarrow> list_ex is_send (attempt_events s s') \<longrightarrow>
            retryTimes (reqDone s) < chunkserverOPMaxRetry (failReqOpt e) \<and>
            spec_retryable (optype (reqCtx s)) (attempt_outcome e a)) \<and>
         (chunkserverOPMaxRetry (failReqOpt e) \<le> retryTimes (reqDone s) \<longrightarrow>
            (\<exists>s'. Run e a s = Some s' \<and>
                  filter is_control (attempt_events s s') = [EvDoneRun] \<and>
                  (spec_retryable (optype (reqCtx s)) (attempt_outcome e a) \<longrightarrow>
                     errcode (reqDone s') = last_status a)))"
proof -
  let ?s1 = "snd (Run_switch e a s)"
  have nr: "fst (Run_switch e a s) = spec_retryable (optype (reqCtx s)) (attempt_outcome e a)"
    using wf by (rule needRetry_Run_switch)
  have q: "filter is_control (attempt_events s ?s1) = []" by (rule Run_switch_facts(2))
  have fin: "Run e a s = Some (emit EvDoneRun ?s1) \<and>
      filter is_control (attempt_events s (emit EvDoneRun ?s1)) = [EvDoneRun]"
    if "\<not> fst (Run_switch e a s)"
    using Run_terminal[OF that] q by simp
  have exh: "\<exists>s'. Run e a s = Some s' \<and> filter is_control (attempt_events s s') = [EvDoneRun] \<and>
      errcode (reqDone s') = last_status a"
    if "fst (Run_switch e a s)" "chunkserverOPMaxRetry (failReqOpt e) \<le> retryTimes (reqDone s)"
    using Run_exhausted[OF that] q by (simp add: emit_def SetFailed_def)
  have a: "retryTimes (reqDone s) < chunkserverOPMaxRetry (failReqOpt e) \<and>
            spec_retryable (optype (reqCtx s)) (attempt_outcome e a)"
    if r: "Run e a s = Some s'" and sent: "list_ex is_send (attempt_events s s')" for s'
  proof -
    have ns: "\<not> list_ex is_send (attempt_events s s')" if "filter is_control (attempt_events s s') = [EvDoneRun]"
    proof
      assume "list_ex is_send (attempt_events s s')"
      then obtain ev where "ev \<in> set (attempt_events s s')" "is_send ev" by (auto simp: list_ex_iff)
      then have "ev \<in> set (filter is_control (attempt_events s s'))" by (simp add: is_send_control)
      with that \<open>is_send ev\<close> show False by simp
    qed
    have 1: "fst (Run_switch e a s)"
    proof (rule ccontr)
      assume n: "\<not> fst (Run_switch e a s)"
      from fin[OF n] r have "filter is_control (attempt_events s s') = [EvDoneRun]" by simp
      with ns sent show False by simp
    qed
    have 2: "retryTimes (reqDone s) < chunkserverOPMaxRetry (failReqOpt e)"
    proof (rule ccontr)
      assume "\<not> retryTimes (reqDone s) < chunkserverOPMaxRetry (failReqOpt e)"
      then have "chunkserverOPMaxRetry (failReqOpt e) \<le> retryTimes (reqDone s)" by simp
      from exh[OF 1 this] r have "filter is_control (attempt_events s s') = [EvDoneRun]" by auto
      with ns sent show False by simp
    qed
    from 1 2 nr show ?thesis by simp
  qed
  have b: "\<exists>s'. Run e a s = Some s' \<and>
                  filter is_control (attempt_events s s') = [EvDoneRun] \<and>
                  (spec_retryable (optype (reqCtx s)) (attempt_outcome e a) \<longrightarrow>
                     errcode (reqDone s') = last_status a)"
    if m: "chunkserverOPMaxRetry (failReqOpt e) \<le> retryTimes (reqDone s)"
  proof (cases "fst (Run_switch e a s)")
    case True
    from exh[OF True m] show ?thesis by blast
  next
    case False
    with fin[OF False] nr show ?thesis by blast
  qed
  from a b show ?thesis by blast
qed


text \<open>
  A write whose connection was refused (error code 111), with a budget of 3: after one
  retry it is re-sent, after three retries the request completes with error code 111.
\<close>

theorem Run_retry_gate_witness:
  "map_option (\<lambda>s'. filter is_control
        (attempt_events (closure0 1 (ctx0 WRITE []) (cache0 (Some 1) (Some 2))) s'))
     (Run env1 (attempt0 WriteChunkClosure 111 0 None)
        (closure0 1 (ctx0 WRITE []) (cache0 (Some 1) (Some 2))))
     = Some [EvSendRetryRequest (WriteChunk \<lparr>cid = 1, cpid = 2, lpid = 3\<rparr> 4 5 7 [1, 2, 3, 4] 0 4 [])] \<and>
   retryTimes (reqDone (closure0 1 (ctx0 WRITE []) (cache0 (Some 1) (Some 2))))
     < chunkserverOPMaxRetry (failReqOpt env1) \<and>
   spec_retryable WRITE (attempt_outcome env1 (attempt0 WriteChunkClosure 111 0 None)) \<and>
   (\<exists>s'. Run env1 (attempt0 WriteChunkClosure 111 0 None)
            (closure0 3 (ctx0 WRITE []) (cache0 (Some 1) (Some 2))) = Some s' \<and>
         filter is_control
           (attempt_events (closure0 3 (ctx0 WRITE []) (cache0 (Some 1) (Some 2))) s') = [EvDoneRun] \<and>
         errcode (reqDone s') = 111)"
proof -
  let ?a = "attempt0 WriteChunkClosure 111 0 None"
  let ?s1 = "closure0 1 (ctx0 WRITE []) (cache0 (Some 1) (Some 2))"
  let ?s3 = "closure0 3 (ctx0 WRITE []) (cache0 (Some 1) (Some 2))"
  obtain s' where r: "Run env1 ?a ?s1 = Some s'"
    and c: "filter is_control (attempt_events ?s1 s') =
       [EvSendRetryRequest (WriteChunk \<lparr>cid = 1, cpid = 2, lpid = 3\<rparr> 4 5 7 [1, 2, 3, 4] 0 4 [])]"
    by (simp add: closure_defs instance_defs)
  have "list_ex is_send (filter is_control (attempt_events ?s1 s'))" unfolding c by simp
  then have sent: "list_ex is_send (attempt_events ?s1 s')" by (auto simp: list_ex_iff)
  note g = Run_retry_gate[OF codes_wf_env1, where a = "?a"]
  have g1: "retryTimes (reqDone ?s1) < chunkserverOPMaxRetry (failReqOpt env1) \<and>
            spec_retryable (optype (reqCtx ?s1)) (attempt_outcome env1 ?a)"
    using g[where s = "?s1"] r sent by blast
  have m: "chunkserverOPMaxRetry (failReqOpt env1) \<le> retryTimes (reqDone ?s3)"
    by (simp add: instance_defs)
  have rt: "spec_retryable (optype (reqCtx ?s3)) (attempt_outcome env1 ?a)"
    using g1 by (simp add: closure0_def ctx0_def)
  have g3: "\<exists>s'. Run env1 ?a ?s3 = Some s' \<and>
         filter is_control (attempt_events ?s3 s') = [EvDoneRun] \<and>
         errcode (reqDone s') = last_status ?a"
    using g[where s = "?s3"] m rt by blast
  have ls: "last_status ?a = 111" by (simp add: last_status_def cntl_Failed_def attempt0_def)
  show ?thesis using r c g1 g3 ls by (simp add: closure0_def ctx0_def)
qed


subsection \<open>A read of a chunk that does not exist\<close>

text \<open>
  Claim C2. Let the closure be a \<^verbatim>\<open>ReadChunkClosure\<close>, the transport status 0 and the status
  of the reply \<^verbatim>\<open>CHUNK_NOTEXIST\<close>. Then \<^verbatim>\<open>Run\<close> returns, completes the request without a
  retry, and leaves the error code 0 and the read buffer resized to the requested length
  with fill byte 0; the buffer has the requested length, and all its bytes are zero when it
  was empty before, as the read buffer of a request is until a reply fills it: the closure
  writes the buffer only in \<^verbatim>\<open>OnSuccess\<close> and \<^verbatim>\<open>OnChunkNotExist\<close>, which both end the request,
  and a run that re-sends the request leaves it as it was (\<open>Run_resend_keeps_readData\<close>).
\<close>

theorem ReadChunk_chunk_notexist_hole:
  assumes "codes_wf (codes e)" and "kind a = ReadChunkClosure" and "cntl_ErrorCode a = 0"
    and "response_status a = CHUNK_OP_STATUS_CHUNK_NOTEXIST (codes e)"
  shows "\<exists>s'. Run e a s = Some s' \<and>
           filter is_control (attempt_events s s') = [EvDoneRun] \<and>
           errcode (reqDone s') = 0 \<and>
           readData (reqCtx s') = IOBuf_resize (rawlength (reqCtx s)) 0 (readData (reqCtx s)) \<and>
           length (readData (reqCtx s')) = rawlength (reqCtx s) \<and>
           (readData (reqCtx s) = [] \<longrightarrow>
              readData (reqCtx s') = replicate (rawlength (reqCtx s)) 0)"
proof -
  let ?s1 = "snd (Run_switch e a s)"
  note sw = Run_switch_chunk_notexist[OF assms(1,3,4,2), of s]
  have r: "Run e a s = Some (emit EvDoneRun ?s1)" using sw(1) by (rule Run_terminal(1))
  have c: "filter is_control (attempt_events s (emit EvDoneRun ?s1)) = [EvDoneRun]"
    using Run_terminal(2)[OF sw(1)] Run_switch_facts(2)[of s e a] by simp
  have l: "length (IOBuf_resize (rawlength (reqCtx s)) 0 (readData (reqCtx s))) = rawlength (reqCtx s)"
    by (simp add: IOBuf_resize_def)
  have z: "IOBuf_resize (rawlength (reqCtx s)) 0 [] = replicate (rawlength (reqCtx s)) 0"
    by (simp add: IOBuf_resize_def)
  show ?thesis using r c sw(2,3) l z by (simp add: emit_def)
qed


text \<open>A read of 4 bytes answered with \<^verbatim>\<open>CHUNK_NOTEXIST\<close> (7): four zero bytes, error code 0.\<close>

theorem ReadChunk_chunk_notexist_hole_witness:
  "(\<exists>s'. Run env1 (attempt0 ReadChunkClosure 0 7 None)
            (closure0 0 (ctx0 READ []) (cache0 (Some 1) (Some 1))) = Some s' \<and>
         filter is_control
           (attempt_events (closure0 0 (ctx0 READ []) (cache0 (Some 1) (Some 1))) s') = [EvDoneRun] \<and>
         errcode (reqDone s') = 0 \<and> readData (reqCtx s') = [0, 0, 0, 0])"
proof -
  let ?a = "attempt0 ReadChunkClosure 0 7 None"
  let ?s = "closure0 0 (ctx0 READ []) (cache0 (Some 1) (Some 1))"
  have h: "kind ?a = ReadChunkClosure" "cntl_ErrorCode ?a = 0"
    "response_status ?a = CHUNK_OP_STATUS_CHUNK_NOTEXIST (codes env1)"
    by (simp_all add: instance_defs)
  have e: "readData (reqCtx ?s) = []" "rawlength (reqCtx ?s) = 4" by (simp_all add: instance_defs)
  have rp: "replicate 4 (0::byte) = [0, 0, 0, 0]" by (simp add: numeral_eq_Suc)
  from ReadChunk_chunk_notexist_hole[OF codes_wf_env1 h, where s = "?s"]
  show ?thesis unfolding e using rp by auto
qed


subsection \<open>A reply with status BACKWARD\<close>

text \<open>
  Claim C3, as the code has it. Let the transport status be 0 and the status of the reply
  \<^verbatim>\<open>BACKWARD\<close>. Then \<^verbatim>\<open>Run\<close> returns, and
  \<^item> for operation type \<^verbatim>\<open>WRITE\<close>, the sequence number of the request is the latest file
    sequence number of the metadata cache and every other field of the request is
    unchanged; if the retry count is below \<^verbatim>\<open>chunkserverOPMaxRetry\<close> the request is re-sent
    with these fields, after the plain sleep; otherwise the request completes with error
    code \<^verbatim>\<open>BACKWARD\<close> and nothing is sent;
  \<^item> for any other operation type, the request is unchanged and completes: nothing is
    sent. (Nothing is said here of the error code in this case.)
\<close>

theorem Run_backward:
  assumes wf: "codes_wf (codes e)" and ok: "cntl_ErrorCode a = 0"
    and bw: "response_status a = CHUNK_OP_STATUS_BACKWARD (codes e)"
  shows "\<exists>s'. Run e a s = Some s' \<and>
     (if optype (reqCtx s) = WRITE
      then reqCtx s' = (reqCtx s)\<lparr>seq := GetLatestFileSn (mc e)
                   (ClearTimeout (mc e) (metaCache s) (chunkserverID a) (chunkserverEndPoint a))\<rparr> \<and>
           (if retryTimes (reqDone s) < chunkserverOPMaxRetry (failReqOpt e)
            then filter is_control (attempt_events s s') =
                   (if retryDirectly s then []
                    else if chunkserverOPRetryIntervalUS (failReqOpt e) = 0 then []
                    else [EvSleep (chunkserverOPRetryIntervalUS (failReqOpt e))]) @
                   [EvSendRetryRequest (retry_rpc (kind a) (reqCtx s'))]
            else filter is_control (attempt_events s s') = [EvDoneRun] \<and>
                 errcode (reqDone s') = CHUNK_OP_STATUS_BACKWARD (codes e))
      else reqCtx s' = reqCtx s \<and> filter is_control (attempt_events s s') = [EvDoneRun])"
proof -
  let ?s1 = "snd (Run_switch e a s)"
  note sw = Run_switch_backward[OF wf ok bw, where s = s]
  note fr = Run_switch_facts[where s = s and e = e and a = a]
  have ls: "last_status a = CHUNK_OP_STATUS_BACKWARD (codes e)"
    using ok bw by (simp add: last_status_def cntl_Failed_def)
  show ?thesis
  proof (cases "optype (reqCtx s) = WRITE")
    case False
    then have n: "\<not> fst (Run_switch e a s)" using sw(1) by simp
    have "Run e a s = Some (emit EvDoneRun ?s1)" using n by (rule Run_terminal(1))
    moreover have "filter is_control (attempt_events s (emit EvDoneRun ?s1)) = [EvDoneRun]"
      using Run_terminal(2)[OF n] fr(2) by simp
    moreover have "reqCtx (emit EvDoneRun ?s1) = reqCtx s" using sw(2) False by (simp add: emit_def)
    ultimately show ?thesis using False by simp
  next
    case True
    then have y: "fst (Run_switch e a s)" using sw(1) by simp
    show ?thesis
    proof (cases "retryTimes (reqDone s) < chunkserverOPMaxRetry (failReqOpt e)")
      case False
      then have m: "chunkserverOPMaxRetry (failReqOpt e) \<le> retryTimes (reqDone s)" by simp
      let ?s' = "emit EvDoneRun (SetFailed (last_status a) (emit (EvMetric IncremFailRPCCount) ?s1))"
      have "Run e a s = Some ?s'" using y m by (rule Run_exhausted(1))
      moreover have "filter is_control (attempt_events s ?s') = [EvDoneRun]"
        using Run_exhausted(2)[OF y m] fr(2) by simp
      moreover have "errcode (reqDone ?s') = CHUNK_OP_STATUS_BACKWARD (codes e)"
        using ls by (simp add: emit_def SetFailed_def)
      moreover have "reqCtx ?s' = (reqCtx s)\<lparr>seq := GetLatestFileSn (mc e)
                   (ClearTimeout (mc e) (metaCache s) (chunkserverID a) (chunkserverEndPoint a))\<rparr>"
        using sw(2) True by (simp add: emit_def SetFailed_def)
      ultimately show ?thesis using True False by simp
    next
      case budget: True
      have b1: "retryTimes (reqDone ?s1) < chunkserverOPMaxRetry (failReqOpt e)"
        using budget by (simp add: retryTimes_Run_switch)
      have c1: "cntlstatus ?s1 \<noteq> ERPCTIMEDOUT (codes e)" "cntlstatus ?s1 \<noteq> ETIMEDOUT (codes e)"
        using fr(4) ok codes_wf_backward(7,8)[OF wf] by simp_all
      have o1: "status ?s1 \<noteq> CHUNK_OP_STATUS_OVERLOAD (codes e)"
        using fr(6) ls codes_wf_backward(6)[OF wf] by simp
      obtain s' where r: "OnRetry e a ?s1 = Some s'"
        and c: "filter is_control (attempt_events ?s1 s') =
             (if plain_sleep e ?s1 = 0 then [] else [EvSleep (plain_sleep e ?s1)]) @
             [EvSendRetryRequest (retry_rpc (kind a) (reqCtx ?s1))]"
        and t: "take (length (events ?s1)) (events s') = events ?s1"
        and x: "reqCtx s' = reqCtx ?s1"
        using OnRetry_plain[OF b1 c1 o1, where a = a] by blast
      have ps: "plain_sleep e ?s1 = (if retryDirectly s then 0 else chunkserverOPRetryIntervalUS (failReqOpt e))"
        using fr(6) ls sw(3) codes_wf_backward(2)[OF wf] by (simp add: plain_sleep_def)
      have "attempt_events s s' = attempt_events s ?s1 @ attempt_events ?s1 s'"
        using fr(1) t by (rule attempt_events_trans)
      then have "filter is_control (attempt_events s s') =
             (if plain_sleep e ?s1 = 0 then [] else [EvSleep (plain_sleep e ?s1)]) @
             [EvSendRetryRequest (retry_rpc (kind a) (reqCtx s'))]"
        using c fr(2) x by simp
      moreover have "Run e a s = Some s'" using Run_retry[OF y] r by simp
      moreover have "reqCtx s' = (reqCtx s)\<lparr>seq := GetLatestFileSn (mc e)
                   (ClearTimeout (mc e) (metaCache s) (chunkserverID a) (chunkserverEndPoint a))\<rparr>"
        using x sw(2) True by simp
      ultimately show ?thesis using True budget ps by auto
    qed
  qed
qed


text \<open>
  A write with sequence number 7 answered with \<^verbatim>\<open>BACKWARD\<close> (10) while the latest file
  sequence number is 9: it is re-sent with sequence number 9 after a sleep of 100 us. A read
  answered with \<^verbatim>\<open>BACKWARD\<close> completes unchanged.
\<close>

theorem Run_backward_witness:
  "(\<exists>s'. Run env1 (attempt0 WriteChunkClosure 0 10 None)
            (closure0 1 (ctx0 WRITE []) (cache0 (Some 1) (Some 1))) = Some s' \<and>
         seq (reqCtx s') = 9 \<and>
         filter is_control
           (attempt_events (closure0 1 (ctx0 WRITE []) (cache0 (Some 1) (Some 1))) s')
           = [EvSleep 100,
              EvSendRetryRequest (WriteChunk \<lparr>cid = 1, cpid = 2, lpid = 3\<rparr> 4 5 9 [1, 2, 3, 4] 0 4 [])]) \<and>
   (\<exists>s'. Run env1 (attempt0 ReadChunkClosure 0 10 None)
            (closure0 1 (ctx0 READ []) (cache0 (Some 1) (Some 1))) = Some s' \<and>
         reqCtx s' = ctx0 READ [] \<and>
         filter is_control
           (attempt_events (closure0 1 (ctx0 READ []) (cache0 (Some 1) (Some 1))) s') = [EvDoneRun])"
proof -
  let ?aw = "attempt0 WriteChunkClosure 0 10 None"
  let ?ar = "attempt0 ReadChunkClosure 0 10 None"
  let ?sw = "closure0 1 (ctx0 WRITE []) (cache0 (Some 1) (Some 1))"
  let ?sr = "closure0 1 (ctx0 READ []) (cache0 (Some 1) (Some 1))"
  have h: "cntl_ErrorCode ?aw = 0" "response_status ?aw = CHUNK_OP_STATUS_BACKWARD (codes env1)"
    "cntl_ErrorCode ?ar = 0" "response_status ?ar = CHUNK_OP_STATUS_BACKWARD (codes env1)"
    by (simp_all add: instance_defs)
  from Run_backward[OF codes_wf_env1 h(1,2), where s = "?sw"]
  have w: "\<exists>s'. Run env1 ?aw ?sw = Some s' \<and> seq (reqCtx s') = 9 \<and>
         filter is_control (attempt_events ?sw s')
           = [EvSleep 100,
              EvSendRetryRequest (WriteChunk \<lparr>cid = 1, cpid = 2, lpid = 3\<rparr> 4 5 9 [1, 2, 3, 4] 0 4 [])]"
    by (auto simp add: instance_defs retry_rpc_def)
  from Run_backward[OF codes_wf_env1 h(3,4), where s = "?sr"]
  have r: "\<exists>s'. Run env1 ?ar ?sr = Some s' \<and> reqCtx s' = ctx0 READ [] \<and>
         filter is_control (attempt_events ?sr s') = [EvDoneRun]"
    by (auto simp add: instance_defs)
  from w r show ?thesis by blast
qed


text \<open>
  Claim C3 as it is written fails twice. A write answered with \<^verbatim>\<open>BACKWARD\<close> after 3 retries,
  the budget being 3, is not re-sent: the request completes. A read answered with
  \<^verbatim>\<open>BACKWARD\<close> (10) completes with the error code it had before, the initial \<open>- 1\<close>, not
  with 10: this branch of the \<^verbatim>\<open>switch\<close> does not call \<^verbatim>\<open>SetFailed\<close>.
\<close>

theorem Run_backward_counterexample:
  "map_option (\<lambda>s'. filter is_control
        (attempt_events (closure0 3 (ctx0 WRITE []) (cache0 (Some 1) (Some 1))) s'))
     (Run env1 (attempt0 WriteChunkClosure 0 10 None)
        (closure0 3 (ctx0 WRITE []) (cache0 (Some 1) (Some 1)))) = Some [EvDoneRun] \<and>
   optype (ctx0 WRITE []) = WRITE \<and>
   response_status (attempt0 WriteChunkClosure 0 10 None) = CHUNK_OP_STATUS_BACKWARD (codes env1) \<and>
   map_option (\<lambda>s'. errcode (reqDone s'))
     (Run env1 (attempt0 ReadChunkClosure 0 10 None)
        (closure0 0 (ctx0 READ []) (cache0 (Some 1) (Some 1)))) = Some (- 1) \<and>
   CHUNK_OP_STATUS_BACKWARD (codes env1) = 10"
  by (simp add: closure_defs instance_defs)


subsection \<open>The timeout of the next attempt\<close>

text \<open>
  Claim C6. Let \<^verbatim>\<open>OnRetry\<close> run with the retry count below \<^verbatim>\<open>chunkserverOPMaxRetry\<close> and
  \<^verbatim>\<open>cntlstatus_\<close>, which \<^verbatim>\<open>Run\<close> has set to the error code of the controller
  (\<open>Run_switch_facts\<close>), one of the two timeout codes. If the
  retry count is below \<^verbatim>\<open>chunkserverMinRetryTimesForceTimeoutBackoff\<close> and
  \<^verbatim>\<open>IsLeaderMayChange\<close> holds for the copyset, the next timeout is
  \<^verbatim>\<open>chunkserverRPCTimeoutMS\<close>; otherwise it is \<open>TimeoutBackOff\<close> of the retry count, and
  \<^verbatim>\<open>OnRetry\<close> has a result exactly when \<open>TimeoutBackOff\<close> has one. In both cases the request
  is re-sent and no sleep comes before.
\<close>

theorem OnRetry_timeout_next_timeout:
  assumes "retryTimes (reqDone s) < chunkserverOPMaxRetry (failReqOpt e)"
    and "cntlstatus s = ERPCTIMEDOUT (codes e) \<or> cntlstatus s = ETIMEDOUT (codes e)"
  shows "if retryTimes (reqDone s) < chunkserverMinRetryTimesForceTimeoutBackoff (failReqOpt e) \<and>
            IsLeaderMayChange (mc e) (metaCache s) (lpid (chunkIdInfo s)) (cpid (chunkIdInfo s))
         then \<exists>s'. OnRetry e a s = Some s' \<and>
                nextTimeoutMS (reqDone s') = chunkserverRPCTimeoutMS (failReqOpt e) \<and>
                filter is_control (attempt_events s s') =
                  [EvSendRetryRequest (retry_rpc (kind a) (reqCtx s))]
         else (case TimeoutBackOff (failReqOpt e) (backoffParam e) (retryTimes (reqDone s)) of
                 None \<Rightarrow> OnRetry e a s = None
               | Some t \<Rightarrow>
                   \<exists>s'. OnRetry e a s = Some s' \<and> nextTimeoutMS (reqDone s') = t \<and>
                     filter is_control (attempt_events s s') =
                       [EvSendRetryRequest (retry_rpc (kind a) (reqCtx s))])"
proof (cases "retryTimes (reqDone s) < chunkserverMinRetryTimesForceTimeoutBackoff (failReqOpt e) \<and>
            IsLeaderMayChange (mc e) (metaCache s) (lpid (chunkIdInfo s)) (cpid (chunkIdInfo s))")
  case True
  have "\<exists>s'. OnRetry e a s = Some s' \<and>
           nextTimeoutMS (reqDone s') = chunkserverRPCTimeoutMS (failReqOpt e) \<and>
           filter is_control (attempt_events s s') = [EvSendRetryRequest (retry_rpc (kind a) (reqCtx s))]"
    using assms True by (blast intro: OnRetry_timeout_shortcut)
  then show ?thesis by (simp only: if_P[OF True])
next
  case False
  show ?thesis
  proof (cases "TimeoutBackOff (failReqOpt e) (backoffParam e) (retryTimes (reqDone s))")
    case None
    have "OnRetry e a s = None" using assms False None by (rule OnRetry_timeout_backoff(1))
    then show ?thesis by (simp only: if_not_P[OF False] None option.case)
  next
    case (Some t)
    have "\<exists>s'. OnRetry e a s = Some s' \<and> nextTimeoutMS (reqDone s') = t \<and>
             filter is_control (attempt_events s s') = [EvSendRetryRequest (retry_rpc (kind a) (reqCtx s))]"
      using assms False Some by (rule OnRetry_timeout_backoff(2))
    then show ?thesis by (simp only: if_not_P[OF False] Some option.case)
  qed
qed


text \<open>
  Base timeout 1000: after 1 retry with a leader that may change the next timeout is 1000;
  after 2 retries with a leader that may not change it is \<open>TimeoutBackOff 2 = 4000\<close>.
\<close>

theorem OnRetry_timeout_next_timeout_witness:
  "(\<exists>s'. OnRetry env1 (attempt0 ReadChunkClosure 1008 0 None)
            ((closure0 1 (ctx0 READ []) (cache0 (Some 1) (Some 1)))\<lparr>cntlstatus := 1008\<rparr>) = Some s' \<and>
         nextTimeoutMS (reqDone s') = 1000 \<and>
         filter is_control
           (attempt_events ((closure0 1 (ctx0 READ []) (cache0 (Some 1) (Some 1)))\<lparr>cntlstatus := 1008\<rparr>) s')
           = [EvSendRetryRequest (ReadChunk \<lparr>cid = 1, cpid = 2, lpid = 3\<rparr> 7 0 4 [])]) \<and>
   (\<exists>s'. OnRetry env1 (attempt0 ReadChunkClosure 1008 0 None)
            ((closure0 2 (ctx0 READ [])
                ((cache0 (Some 1) (Some 1))\<lparr>leaderMayChange := False\<rparr>))\<lparr>cntlstatus := 1008\<rparr>) = Some s' \<and>
         nextTimeoutMS (reqDone s') = 4000 \<and>
         filter is_control
           (attempt_events ((closure0 2 (ctx0 READ [])
                ((cache0 (Some 1) (Some 1))\<lparr>leaderMayChange := False\<rparr>))\<lparr>cntlstatus := 1008\<rparr>) s')
           = [EvSendRetryRequest (ReadChunk \<lparr>cid = 1, cpid = 2, lpid = 3\<rparr> 7 0 4 [])])"
proof -
  let ?a = "attempt0 ReadChunkClosure 1008 0 None"
  let ?s1 = "(closure0 1 (ctx0 READ []) (cache0 (Some 1) (Some 1)))\<lparr>cntlstatus := 1008\<rparr>"
  let ?s2 = "(closure0 2 (ctx0 READ [])
                ((cache0 (Some 1) (Some 1))\<lparr>leaderMayChange := False\<rparr>))\<lparr>cntlstatus := 1008\<rparr>"
  have b1: "retryTimes (reqDone ?s1) < chunkserverOPMaxRetry (failReqOpt env1)"
    and b2: "retryTimes (reqDone ?s2) < chunkserverOPMaxRetry (failReqOpt env1)"
    by (simp_all add: instance_defs)
  have t1: "cntlstatus ?s1 = ERPCTIMEDOUT (codes env1) \<or> cntlstatus ?s1 = ETIMEDOUT (codes env1)"
    and t2: "cntlstatus ?s2 = ERPCTIMEDOUT (codes env1) \<or> cntlstatus ?s2 = ETIMEDOUT (codes env1)"
    by (simp_all add: instance_defs)
  have tb: "TimeoutBackOff (failReqOpt env1) (backoffParam env1) 2 = Some 4000"
    by (simp add: TimeoutBackOff_def shl_int_one_def instance_defs)
  from OnRetry_timeout_next_timeout[OF b1 t1, where a = "?a"]
  have w1: "\<exists>s'. OnRetry env1 ?a ?s1 = Some s' \<and> nextTimeoutMS (reqDone s') = 1000 \<and>
         filter is_control (attempt_events ?s1 s')
           = [EvSendRetryRequest (ReadChunk \<lparr>cid = 1, cpid = 2, lpid = 3\<rparr> 7 0 4 [])]"
    by (simp add: instance_defs retry_rpc_def)
  from OnRetry_timeout_next_timeout[OF b2 t2, where a = "?a"]
  have w2: "\<exists>s'. OnRetry env1 ?a ?s2 = Some s' \<and> nextTimeoutMS (reqDone s') = 4000 \<and>
         filter is_control (attempt_events ?s2 s')
           = [EvSendRetryRequest (ReadChunk \<lparr>cid = 1, cpid = 2, lpid = 3\<rparr> 7 0 4 [])]"
    using tb by (simp add: instance_defs retry_rpc_def)
  from w1 w2 show ?thesis by blast
qed


subsection \<open>The sleep before a plain retry\<close>

text \<open>
  Claim C8 says: for every retry whose previous attempt was neither a transport timeout nor
  an Overload response, the sleep before the retry is 0 when \<^verbatim>\<open>retryDirectly_\<close> is set, else
  \<^verbatim>\<open>chunkserverOPRetryIntervalUS\<close>, divided by 10 when the outcome was Redirected, and
  \<^verbatim>\<open>bthread_usleep\<close> is called only when it is not 0. The code does not do this for every such
  attempt. \<^verbatim>\<open>OnRpcFailed\<close> stores the error code of the controller in \<^verbatim>\<open>status_\<close>, and
  \<^verbatim>\<open>OnRetry\<close> hands \<^verbatim>\<open>status_\<close> to \<^verbatim>\<open>PreProcessBeforeRetry\<close> as \<^verbatim>\<open>rpcstatus\<close>, where it is
  compared with the enumerators \<^verbatim>\<open>OVERLOAD\<close> and \<^verbatim>\<open>REDIRECTED\<close>. With these numbered 9 and
  1, retry interval 100, two retries so far and no direct retry:
  \<^item> a request that failed in the transport with error code 9, an outcome \<open>RpcFailed\<close>,
    sleeps the overload backoff, 397;
  \<^item> a request that failed in the transport with error code 1, an outcome \<open>RpcFailed\<close>,
    sleeps a tenth of the interval, 10;
  \<^item> a request that failed in the transport with error code 111 sleeps the interval, 100,
    as the claim says.
\<close>

theorem Run_transport_error_read_as_status:
  "attempt_outcome env1 (attempt0 ReadChunkClosure 9 0 None) = RpcFailed 9 \<and>
   map_option (\<lambda>s'. (retryDirectly s', filter is_control
        (attempt_events (closure0 2 (ctx0 READ []) (cache0 (Some 1) (Some 1))) s')))
     (Run env1 (attempt0 ReadChunkClosure 9 0 None)
        (closure0 2 (ctx0 READ []) (cache0 (Some 1) (Some 1))))
     = Some (False, [EvSleep 397,
          EvSendRetryRequest (ReadChunk \<lparr>cid = 1, cpid = 2, lpid = 3\<rparr> 7 0 4 [])]) \<and>
   attempt_outcome env1 (attempt0 ReadChunkClosure 1 0 None) = RpcFailed 1 \<and>
   map_option (\<lambda>s'. (retryDirectly s', filter is_control
        (attempt_events (closure0 2 (ctx0 READ []) (cache0 (Some 1) (Some 1))) s')))
     (Run env1 (attempt0 ReadChunkClosure 1 0 None)
        (closure0 2 (ctx0 READ []) (cache0 (Some 1) (Some 1))))
     = Some (False, [EvSleep 10,
          EvSendRetryRequest (ReadChunk \<lparr>cid = 1, cpid = 2, lpid = 3\<rparr> 7 0 4 [])]) \<and>
   attempt_outcome env1 (attempt0 ReadChunkClosure 111 0 None) = RpcFailed 111 \<and>
   map_option (\<lambda>s'. (retryDirectly s', filter is_control
        (attempt_events (closure0 2 (ctx0 READ []) (cache0 (Some 1) (Some 1))) s')))
     (Run env1 (attempt0 ReadChunkClosure 111 0 None)
        (closure0 2 (ctx0 READ []) (cache0 (Some 1) (Some 1))))
     = Some (False, [EvSleep 100,
          EvSendRetryRequest (ReadChunk \<lparr>cid = 1, cpid = 2, lpid = 3\<rparr> 7 0 4 [])]) \<and>
   chunkserverOPRetryIntervalUS (failReqOpt env1) = 100 \<and>
   CHUNK_OP_STATUS_OVERLOAD (codes env1) = 9 \<and> CHUNK_OP_STATUS_REDIRECTED (codes env1) = 1"
  by (simp add: closure_defs instance_defs)

section \<open>Properties of the leader update after a redirect\<close>



text \<open>
  Claim C9. Let the enumerators be numbered admissibly, the transport status be 0, the
  status of the reply \<^verbatim>\<open>REDIRECTED\<close>, and let the reply carry a leader hint that does not
  parse. Then \<^verbatim>\<open>UpdateLeaderWithRedirectInfo\<close> with that hint returns \<open>- 1\<close> and leaves
  every closure, and so the metadata cache, as it was; and up to the end of its \<^verbatim>\<open>switch\<close>
  \<^verbatim>\<open>Run\<close> counts the redirect metric and calls \<^verbatim>\<open>GetLeader\<close> with \<^verbatim>\<open>refresh\<close> and nothing
  else: \<^verbatim>\<open>UpdateLeader\<close> is not called, the metadata cache is the one that \<^verbatim>\<open>GetLeader\<close>
  returns from the cache after \<^verbatim>\<open>ClearTimeout\<close>, a retry is required and \<^verbatim>\<open>Run\<close> goes on
  with \<^verbatim>\<open>OnRetry\<close>.
\<close>

theorem Run_switch_redirected_parse_failure:
  fixes e :: "'m Env" and a :: Attempt and s :: "'m ClientClosure"
  assumes wf: "codes_wf (codes e)" and ok: "cntl_ErrorCode a = 0"
    and rd: "response_status a = CHUNK_OP_STATUS_REDIRECTED (codes e)"
    and hint: "reply_redirect a = Some leaderInfo" and pf: "fst (Parse e leaderInfo) \<noteq> 0"
  defines "lp \<equiv> lpid (idinfo (reqCtx s))" and "cp \<equiv> cpid (idinfo (reqCtx s))"
    and "m0 \<equiv> ClearTimeout (mc e) (metaCache s) (chunkserverID a) (chunkserverEndPoint a)"
  shows "(\<forall>x. UpdateLeaderWithRedirectInfo e a leaderInfo x = (- 1, x)) \<and>
         fst (Run_switch e a s) \<and> Run e a s = OnRetry e a (snd (Run_switch e a s)) \<and>
         attempt_events s (snd (Run_switch e a s)) =
           [EvMetric IncremRedirectRPCCount, EvGetLeader lp cp True] \<and>
         metaCache (snd (Run_switch e a s)) = snd (GetLeader (mc e) m0 lp cp True)"
proof -
  have u: "UpdateLeaderWithRedirectInfo e a leaderInfo x = (- 1, x)" for x :: "'m ClientClosure"
    using pf by (cases "Parse e leaderInfo") (simp add: UpdateLeaderWithRedirectInfo_def)
  note eq = Run_switch_redirected_eq[OF wf ok rd, where s = s]
  have f: "fst (Run_switch e a s)" by (simp add: eq)
  have "Run e a s = OnRetry e a (snd (Run_switch e a s))" using f by (rule Run_retry)
  moreover note f
  moreover have "attempt_events s (snd (Run_switch e a s)) =
           [EvMetric IncremRedirectRPCCount, EvGetLeader lp cp True]"
    using hint
    by (simp add: eq OnRedirected_def redirected_with_def u RefreshLeader_def emit_def
        attempt_events_def Let_def lp_def cp_def split: prod.splits)
  moreover have "metaCache (snd (Run_switch e a s)) = snd (GetLeader (mc e) m0 lp cp True)"
    using hint
    by (simp add: eq OnRedirected_def redirected_with_def u RefreshLeader_def emit_def
        Let_def lp_def cp_def m0_def split: prod.splits)
  ultimately show ?thesis using u by blast
qed

text \<open>
  A reply \<^verbatim>\<open>REDIRECTED\<close> (1) with the empty hint, which does not parse: the authority is
  asked and names chunkserver 2, which the cache then holds as the leader.
\<close>

theorem Run_switch_redirected_parse_failure_witness:
  "UpdateLeaderWithRedirectInfo env1 (attempt0 ReadChunkClosure 0 1 (Some []))
      [] (closure0 0 (ctx0 READ []) (cache0 (Some 1) (Some 2)))
     = (- 1, closure0 0 (ctx0 READ []) (cache0 (Some 1) (Some 2))) \<and>
   attempt_events (closure0 0 (ctx0 READ []) (cache0 (Some 1) (Some 2)))
     (snd (Run_switch env1 (attempt0 ReadChunkClosure 0 1 (Some []))
        (closure0 0 (ctx0 READ []) (cache0 (Some 1) (Some 2)))))
     = [EvMetric IncremRedirectRPCCount, EvGetLeader 3 2 True] \<and>
   metaCache (snd (Run_switch env1 (attempt0 ReadChunkClosure 0 1 (Some []))
        (closure0 0 (ctx0 READ []) (cache0 (Some 1) (Some 2))))) = cache0 (Some 2) (Some 2)"
proof -
  let ?a = "attempt0 ReadChunkClosure 0 1 (Some [])"
  let ?s = "closure0 0 (ctx0 READ []) (cache0 (Some 1) (Some 2))"
  have h: "cntl_ErrorCode ?a = 0" "response_status ?a = CHUNK_OP_STATUS_REDIRECTED (codes env1)"
    "reply_redirect ?a = Some []" "fst (Parse env1 []) \<noteq> 0"
    by (simp_all add: instance_defs reply_redirect_def)
  note t = Run_switch_redirected_parse_failure[OF codes_wf_env1 h, where s = "?s"]
  have 1: "UpdateLeaderWithRedirectInfo env1 ?a [] ?s = (- 1, ?s)"
    using t[THEN conjunct1] by blast
  note 2 = t[THEN conjunct2, THEN conjunct2, THEN conjunct2]
  show ?thesis using 1 2 by (simp add: instance_defs)
qed

end
